theory Spec2Isabelle
  imports Main
begin

section \<open>Values, version tokens and effects\<close>

text \<open>
  The class-component observer of mobx-react (\<^verbatim>\<open>observerClass.ts\<close>, \<^verbatim>\<open>observer.tsx\<close>).

  A version token is a JavaScript \<^verbatim>\<open>Symbol()\<close>: it can only be compared for identity, and
  every call mints a new one. A token is modelled by the index of the \<^verbatim>\<open>Symbol()\<close> call
  that minted it; the world counts the calls.

  The inputs of a class component (props, state, context) are objects, \<^verbatim>\<open>null\<close> or
  \<^verbatim>\<open>undefined\<close>. An object is known by its identity only: what it holds is seen through
  \<^verbatim>\<open>shallowEqual\<close>, which lives in \<^verbatim>\<open>./utils/utils\<close> and is a parameter of every
  function that calls it. The same type stands for a thrown value.
\<close>

type_synonym symbol = nat
type_synonym ref = nat
type_synonym callback = nat
type_synonym Reaction = string

datatype jsval = Undefined | Null | Obj ref

fun truthy :: "jsval \<Rightarrow> bool" where
  "truthy (Obj r) = True"
| "truthy Undefined = False"
| "truthy Null = False"

datatype key = PropsKey | StateKey | ContextKey

text \<open>
  The reactive engine (atoms, reactions), the finalization registry and the console are
  outside the two source files. A call into one of them is recorded in the world's trace,
  in program order. What the engine does inside \<^verbatim>\<open>atom.reportChanged()\<close> is a parameter
  of the setter that makes the call; \<open>reportChanged\<close> below models it from the
  specification. An invalidation the engine delivers for any other reason (an observable
  the render read has changed) is the separate operation \<open>reactionCallback\<close>.
\<close>

datatype event =
    ReportObserved key
  | ReportChanged key
  | ScheduleUpdate callback symbol
  | ReactionDispose Reaction
  | TrackStart Reaction
  | TrackEnd Reaction
  | RegistryRegister
  | RegistryUnregister
  | ConsoleWarn

text \<open>
  A \<^verbatim>\<open>WeakSet\<close> holds object identities. \<^verbatim>\<open>has\<close> and \<^verbatim>\<open>delete\<close> answer
  \<^verbatim>\<open>false\<close> for a value that is not an object. \<open>WeakSet_add\<close> is the guarded call
  \<^verbatim>\<open>value && set.add(value)\<close> of the source: a falsy value is not added.
\<close>

type_synonym WeakSet = "ref set"

fun WeakSet_has :: "WeakSet \<Rightarrow> jsval \<Rightarrow> bool" where
  "WeakSet_has S (Obj r) = (r \<in> S)"
| "WeakSet_has S Undefined = False"
| "WeakSet_has S Null = False"

fun WeakSet_delete :: "WeakSet \<Rightarrow> jsval \<Rightarrow> WeakSet" where
  "WeakSet_delete S (Obj r) = S - {r}"
| "WeakSet_delete S Undefined = S"
| "WeakSet_delete S Null = S"

fun WeakSet_add :: "jsval \<Rightarrow> WeakSet \<Rightarrow> WeakSet" where
  "WeakSet_add (Obj r) S = insert r S"
| "WeakSet_add Undefined S = S"
| "WeakSet_add Null S = S"

section \<open>Component classes\<close>

text \<open>
  What the wrap operation inspects on its target. A prototype member is missing (or falsy),
  a truthy value that is not a function, a function of the user, or one of the functions
  the observer installs. \<open>protoChain\<close> is the chain \<^verbatim>\<open>component.__proto__\<close>,
  \<^verbatim>\<open>component.__proto__.__proto__\<close>, ... of the constructor. In \<open>displayName\<close> and
  \<open>className\<close> the empty string stands for an absent (falsy) name.
\<close>

datatype member =
    Missing
  | NonFunction
  | UserFunction nat
  | ObserverSCU
  | SetScheduleUpdate
  | ObserverRender member
  | ObserverDidMount member
  | ObserverWillUnmount member

datatype constructorRef = ReactComponent | ReactPureComponent | UserClass nat

record prototypeObj =
  proto_setScheduleUpdate :: member
  proto_componentWillReact :: member
  proto_shouldComponentUpdate :: member
  proto_render :: member
  proto_componentDidMount :: member
  proto_componentWillUnmount :: member
  proto_observableInputs :: bool

record componentClass =
  displayName :: string
  className :: string
  protoChain :: "constructorRef list"
  prototype :: prototypeObj
  isMobxInjector :: bool
  isMobXReactObserver :: bool

datatype error =
    DecoratorOnNonClass
  | AlreadyObserver string
  | ComponentWillReactUnsupported
  | ShouldComponentUpdateNotAllowed
  | PureComponentNotAllowed
  | MissingRender string
  | DidMountNotOnPrototype string
  | Thrown jsval

definition getDisplayName :: "componentClass \<Rightarrow> string" where
  "getDisplayName componentClass =
     (if displayName componentClass \<noteq> [] then displayName componentClass
      else if className componentClass \<noteq> [] then className componentClass
      else ''<component>'')"

section \<open>The administration record and the world of one instance\<close>

record ObserverAdministration =
  reaction :: "Reaction option"
  scheduleUpdate :: "callback option"
  mounted :: bool
  name :: string
  props :: jsval
  state :: jsval
  context' :: jsval
  pendingStateVersion :: symbol
  stateVersion :: symbol
  changedVariables :: WeakSet
  unchangedVariables :: WeakSet

text \<open>
  The world of one component instance: the slot \<^verbatim>\<open>component[administrationSymbol]\<close>,
  the instance's constructor, whether the instance carries a \<^verbatim>\<open>componentDidMount\<close> of its
  own that differs from the prototype's, the number of \<^verbatim>\<open>Symbol()\<close> calls so far, the
  trace of outside calls, the flag \<^verbatim>\<open>isUsingStaticRendering()\<close> returns and the build
  constant \<^verbatim>\<open>__DEV__\<close>.
\<close>

datatype renderKind = OriginalRender | ReactiveRender

record world =
  administration :: "ObserverAdministration option"
  constructorOf :: componentClass
  ownComponentDidMount :: bool
  ownRender :: "renderKind option"
  symbols :: nat
  trace :: "event list"
  staticRendering :: bool
  DEV :: bool

definition Symbol :: "world \<Rightarrow> symbol \<times> world" where
  "Symbol w = (symbols w, w\<lparr>symbols := Suc (symbols w)\<rparr>)"

definition emit :: "event \<Rightarrow> world \<Rightarrow> world" where
  "emit e w = w\<lparr>trace := trace w @ [e]\<rparr>"

definition getAdministration :: "world \<Rightarrow> ObserverAdministration \<times> world" where
  "getAdministration w =
     (case administration w of
        Some admin \<Rightarrow> (admin, w)
      | None \<Rightarrow>
          (let (initialSymbol, w1) = Symbol w;
               admin = \<lparr>reaction = None,
                        scheduleUpdate = None,
                        mounted = False,
                        name = getDisplayName (constructorOf w),
                        props = Undefined,
                        state = Undefined,
                        context' = Undefined,
                        pendingStateVersion = initialSymbol,
                        stateVersion = initialSymbol,
                        changedVariables = {},
                        unchangedVariables = {}\<rparr>
           in (admin, w1\<lparr>administration := Some admin\<rparr>)))"

fun getKey :: "key \<Rightarrow> ObserverAdministration \<Rightarrow> jsval" where
  "getKey PropsKey admin = props admin"
| "getKey StateKey admin = state admin"
| "getKey ContextKey admin = context' admin"

fun setKey :: "key \<Rightarrow> jsval \<Rightarrow> ObserverAdministration \<Rightarrow> ObserverAdministration" where
  "setKey PropsKey v admin = admin\<lparr>props := v\<rparr>"
| "setKey StateKey v admin = admin\<lparr>state := v\<rparr>"
| "setKey ContextKey v admin = admin\<lparr>context' := v\<rparr>"

section \<open>Observable inputs: createObservablePropDescriptor\<close>

text \<open>
  The getter and the setter of the three observable inputs, for the input \<open>k\<close>. The
  getter reports the input's atom observed (between \<^verbatim>\<open>_allowStateReadsStart\<close> and
  \<^verbatim>\<open>_allowStateReadsEnd\<close>, switches of the engine that are not modelled) and returns
  the cached value. The setter ends two of its branches with
  \<^verbatim>\<open>admin[atomKey].reportChanged()\<close>, a call into the engine that returns only after the
  engine has run the reactions it invalidates: \<open>atomReportChanged\<close> is that call.
  \<open>recordChanged\<close> is the call with nothing run inside it.
\<close>

definition descriptor_get :: "key \<Rightarrow> world \<Rightarrow> jsval \<times> world" where
  "descriptor_get k w =
     (let (admin, w1) = getAdministration w;
          w2 = emit (ReportObserved k) w1
      in (getKey k admin, w2))"

definition recordChanged :: "key \<Rightarrow> world \<Rightarrow> world" where
  "recordChanged k w = emit (ReportChanged k) w"

definition descriptor_set ::
  "(key \<Rightarrow> world \<Rightarrow> world) \<Rightarrow> (jsval \<Rightarrow> jsval \<Rightarrow> bool) \<Rightarrow> key \<Rightarrow> jsval \<Rightarrow> world
     \<Rightarrow> world" where
  "descriptor_set atomReportChanged shallowEqual k v w =
     (let (admin, w1) = getAdministration w in
      if WeakSet_has (changedVariables admin) v then
        (let admin1 = admin\<lparr>changedVariables := WeakSet_delete (changedVariables admin) v\<rparr>;
             admin2 = setKey k v admin1
         in atomReportChanged k (w1\<lparr>administration := Some admin2\<rparr>))
      else if WeakSet_has (unchangedVariables admin) v then
        (let admin1 = admin\<lparr>unchangedVariables := WeakSet_delete (unchangedVariables admin) v\<rparr>;
             admin2 = setKey k v admin1
         in w1\<lparr>administration := Some admin2\<rparr>)
      else if \<not> shallowEqual (getKey k admin) v then
        (let admin1 = setKey k v admin;
             (s, w2) = Symbol w1;
             admin2 = admin1\<lparr>pendingStateVersion := s\<rparr>
         in atomReportChanged k (w2\<lparr>administration := Some admin2\<rparr>))
      else
        w1\<lparr>administration := Some (setKey k v admin)\<rparr>)"

section \<open>The prototype's hooks\<close>

definition setScheduleUpdate :: "callback \<Rightarrow> world \<Rightarrow> world" where
  "setScheduleUpdate f w =
     (if staticRendering w then w
      else
        (let (admin, w1) = getAdministration w;
             admin1 = admin\<lparr>scheduleUpdate := Some f\<rparr>;
             w2 = w1\<lparr>administration := Some admin1\<rparr>
         in if pendingStateVersion admin1 \<noteq> stateVersion admin1 \<and> mounted admin1
            then emit (ScheduleUpdate f (pendingStateVersion admin1)) w2
            else w2))"

text \<open>
  \<^verbatim>\<open>admin.scheduleUpdate?.(token)\<close>: the callback is called when one is registered.
\<close>

definition callScheduleUpdate :: "ObserverAdministration \<Rightarrow> world \<Rightarrow> world" where
  "callScheduleUpdate admin w =
     (case scheduleUpdate admin of
        None \<Rightarrow> w
      | Some f \<Rightarrow> emit (ScheduleUpdate f (pendingStateVersion admin)) w)"

text \<open>
  \<open>componentDidMount\<close> takes the hook the class had before the wrap
  (\<^verbatim>\<open>originalComponentDidMount\<close>), if any: user code, run last on the world the
  observer's part leaves.
\<close>

definition componentDidMount ::
  "(world \<Rightarrow> (error + jsval) \<times> world) option \<Rightarrow> world \<Rightarrow> (error + jsval) \<times> world" where
  "componentDidMount originalComponentDidMount w =
     (if DEV w \<and> ownComponentDidMount w then
        (Inl (DidMountNotOnPrototype (getDisplayName (constructorOf w))), w)
      else
        (let (admin, w1) = getAdministration w;
             admin1 = admin\<lparr>mounted := True\<rparr>;
             w2 = emit RegistryUnregister (w1\<lparr>administration := Some admin1\<rparr>);
             w3 = (if reaction admin1 = None
                      \<or> pendingStateVersion admin1 \<noteq> stateVersion admin1
                   then
                     (let (s, w') = Symbol w2;
                          admin2 = admin1\<lparr>pendingStateVersion := s\<rparr>
                      in callScheduleUpdate admin2 (w'\<lparr>administration := Some admin2\<rparr>))
                   else w2)
         in case originalComponentDidMount of
              None \<Rightarrow> (Inr Undefined, w3)
            | Some f \<Rightarrow> f w3))"

definition componentWillUnmount :: "world \<Rightarrow> world" where
  "componentWillUnmount w =
     (if staticRendering w then w
      else
        (let (admin, w1) = getAdministration w;
             w2 = (case reaction admin of
                     None \<Rightarrow> w1
                   | Some r \<Rightarrow> emit (ReactionDispose r) w1)
         in w2\<lparr>administration := Some (admin\<lparr>reaction := None, mounted := False\<rparr>)\<rparr>))"

definition observerSCU ::
  "(jsval \<Rightarrow> jsval \<Rightarrow> bool) \<Rightarrow> jsval \<Rightarrow> jsval \<Rightarrow> world \<Rightarrow> bool \<times> world" where
  "observerSCU shallowEqual nextProps nextState w =
     (let w0 = (if staticRendering w then emit ConsoleWarn w else w);
          (thisProps, w1) = descriptor_get PropsKey w0;
          propsChanged = (\<not> shallowEqual thisProps nextProps);
          (thisState, w2) = descriptor_get StateKey w1;
          stateChanged = (\<not> shallowEqual thisState nextState);
          (admin, w3) = getAdministration w2;
          shouldUpdate = (propsChanged \<or> stateChanged
                          \<or> pendingStateVersion admin \<noteq> stateVersion admin);
          (admin1, w4) = (if shouldUpdate
                          then (let (s, w') = Symbol w3
                                in (admin\<lparr>pendingStateVersion := s\<rparr>, w'))
                          else (admin, w3));
          admin2 = (if propsChanged
                    then admin1\<lparr>changedVariables :=
                                  WeakSet_add nextProps (changedVariables admin1)\<rparr>
                    else admin1\<lparr>unchangedVariables :=
                                  WeakSet_add nextProps (unchangedVariables admin1)\<rparr>);
          admin3 = (if stateChanged
                    then admin2\<lparr>changedVariables :=
                                  WeakSet_add nextState (changedVariables admin2)\<rparr>
                    else admin2\<lparr>unchangedVariables :=
                                  WeakSet_add nextState (unchangedVariables admin2)\<rparr>)
      in (shouldUpdate, w4\<lparr>administration := Some admin3\<rparr>))"

section \<open>The reaction and the reactive render\<close>

text \<open>
  \<^verbatim>\<open>createReaction(admin)\<close> builds a reaction named after the component; the handle is
  modelled by that name. Its second argument, the invalidation callback, is
  \<open>reactionCallback\<close>. The callback closes over the record of the instance, which never
  leaves the instance's slot; an instance without a record has no reaction to fire.
\<close>

definition createReaction :: "ObserverAdministration \<Rightarrow> Reaction" where
  "createReaction admin = name admin @ ''.render()''"

definition reactionCallback :: "world \<Rightarrow> world" where
  "reactionCallback w =
     (case administration w of
        None \<Rightarrow> w
      | Some admin \<Rightarrow>
          if pendingStateVersion admin \<noteq> stateVersion admin then w
          else
            (let (s, w1) = Symbol w;
                 admin1 = admin\<lparr>pendingStateVersion := s\<rparr>;
                 w2 = w1\<lparr>administration := Some admin1\<rparr>
             in if mounted admin1 then callScheduleUpdate admin1 w2 else w2))"

definition reactionAlive :: "world \<Rightarrow> bool" where
  "reactionAlive w =
     (case administration w of None \<Rightarrow> False | Some admin \<Rightarrow> reaction admin \<noteq> None)"

text \<open>
  Modelled from the spec: \<^verbatim>\<open>reportChanged()\<close> of an atom, code of the reactive engine
  (the mobx package), which is not among the source files. The specification: a reaction
  re-executes its callback when any atom it read during its last run is later marked
  changed; all atom invalidations execute synchronously on the turn that mutated the
  state, and the reaction callback itself executes synchronously within that same call.
  \<open>observed\<close> is the set of inputs whose change the engine delivers to the reaction of
  the instance: the inputs whose atoms the reaction read during its last run. The call
  is taken outside a batch of the engine.
\<close>

definition reportChanged :: "key set \<Rightarrow> key \<Rightarrow> world \<Rightarrow> world" where
  "reportChanged observed k w =
     (let w1 = emit (ReportChanged k) w
      in if k \<in> observed \<and> reactionAlive w1 then reactionCallback w1 else w1)"

text \<open>
  A thrown value is truthy or falsy like any other value; the errors the observer itself
  raises are \<^verbatim>\<open>Error\<close> objects.
\<close>

fun error_truthy :: "error \<Rightarrow> bool" where
  "error_truthy (Thrown v) = truthy v"
| "error_truthy e = True"

definition updateAdministration ::
  "(ObserverAdministration \<Rightarrow> ObserverAdministration) \<Rightarrow> world \<Rightarrow> world" where
  "updateAdministration f w = w\<lparr>administration := map_option f (administration w)\<rparr>"

text \<open>
  \<open>reactiveRender\<close> is the closure \<^verbatim>\<open>createReactiveRender\<close> returns, together with the
  \<^verbatim>\<open>getAdministration(this)\<close> of its creation; \<open>ensureReaction\<close> is its first
  statement, the lazy creation of the reaction. The user's render is a parameter: it
  runs on the world, and returns a value (\<open>Inr\<close>) or throws (\<open>Inl\<close>).
  \<^verbatim>\<open>reaction.track(fn)\<close> runs \<open>fn\<close> once between \<open>TrackStart\<close> and \<open>TrackEnd\<close>.
  The local \<^verbatim>\<open>error\<close> is \<open>None\<close> while it holds \<^verbatim>\<open>undefined\<close>.
\<close>

definition ensureReaction :: "world \<Rightarrow> Reaction \<times> world" where
  "ensureReaction w =
     (let (admin, w1) = getAdministration w in
      case reaction admin of
        Some r \<Rightarrow> (r, w1)
      | None \<Rightarrow>
          (let r = createReaction admin;
               admin1 = admin\<lparr>reaction := Some r\<rparr>;
               w2 = w1\<lparr>administration := Some admin1\<rparr>
           in (r, if \<not> mounted admin1 then emit RegistryRegister w2 else w2)))"

definition reactiveRender ::
  "(world \<Rightarrow> (error + jsval) \<times> world) \<Rightarrow> world \<Rightarrow> (error + jsval) \<times> world" where
  "reactiveRender boundOriginalRender w =
     (let (r, w2) = ensureReaction w;
          w3 = emit (TrackStart r) w2;
          (res, w4) = boundOriginalRender w3;
          (err, renderResult, w5) =
             (case res of
                Inr v \<Rightarrow>
                  (None, v,
                   updateAdministration
                     (\<lambda>a. a\<lparr>stateVersion := pendingStateVersion a\<rparr>) w4)
              | Inl e \<Rightarrow> (Some e, Undefined, w4));
          w6 = emit (TrackEnd r) w5
      in case err of
           None \<Rightarrow> (Inr renderResult, w6)
         | Some e \<Rightarrow> if error_truthy e then (Inl e, w6) else (Inr renderResult, w6))"

text \<open>
  \<^verbatim>\<open>prototype.render\<close>: the first call installs the instance's own \<^verbatim>\<open>render\<close>, which
  no later call can replace.
\<close>

definition render ::
  "(world \<Rightarrow> (error + jsval) \<times> world) \<Rightarrow> world \<Rightarrow> (error + jsval) \<times> world" where
  "render originalRender w =
     (case ownRender w of
        Some OriginalRender \<Rightarrow> originalRender w
      | Some ReactiveRender \<Rightarrow> reactiveRender originalRender w
      | None \<Rightarrow>
          if staticRendering w
          then originalRender (w\<lparr>ownRender := Some OriginalRender\<rparr>)
          else reactiveRender originalRender
                 (snd (getAdministration w)\<lparr>ownRender := Some ReactiveRender\<rparr>))"

section \<open>MobxObserverStore\<close>

text \<open>
  The listeners are a JavaScript \<^verbatim>\<open>Set\<close>: no duplicates, visited in insertion order.
  \<open>setValue\<close> returns the store together with the listeners it called, in order.
\<close>

type_synonym listener = nat

record MobxObserverStore =
  value' :: symbol
  listeners :: "listener list"

definition newMobxObserverStore :: "world \<Rightarrow> MobxObserverStore \<times> world" where
  "newMobxObserverStore w =
     (let (s, w1) = Symbol w in (\<lparr>value' = s, listeners = []\<rparr>, w1))"

definition notifyListeners :: "MobxObserverStore \<Rightarrow> listener list" where
  "notifyListeners store = listeners store"

definition setValue :: "symbol \<Rightarrow> MobxObserverStore \<Rightarrow> MobxObserverStore \<times> listener list" where
  "setValue newValue store =
     (if value' store \<noteq> newValue
      then (let store1 = store\<lparr>value' := newValue\<rparr> in (store1, notifyListeners store1))
      else (store, []))"

definition getValue :: "MobxObserverStore \<Rightarrow> symbol" where
  "getValue store = value' store"

definition subscribe :: "listener \<Rightarrow> MobxObserverStore \<Rightarrow> MobxObserverStore" where
  "subscribe l store =
     (if l \<in> set (listeners store) then store
      else store\<lparr>listeners := listeners store @ [l]\<rparr>)"

definition unsubscribe :: "listener \<Rightarrow> MobxObserverStore \<Rightarrow> MobxObserverStore" where
  "unsubscribe l store = store\<lparr>listeners := removeAll l (listeners store)\<rparr>"

section \<open>The wrap operation\<close>


definition emptyPrototype :: prototypeObj where
  "emptyPrototype =
     \<lparr>proto_setScheduleUpdate = Missing, proto_componentWillReact = Missing,
      proto_shouldComponentUpdate = Missing, proto_render = Missing,
      proto_componentDidMount = Missing, proto_componentWillUnmount = Missing,
      proto_observableInputs = False\<rparr>"







section \<open>Histories of one instance\<close>

text \<open>
  The calls an instance receives from the host framework, the hosting wrapper and the
  reactive engine. The engine calls the invalidation callback of a reaction only while the
  reaction exists; \<open>componentDidMount\<close> is taken without an original hook. A write is
  taken up to the return of the setter's own statements (\<open>recordChanged\<close>); the callback
  the engine runs inside the setter's \<^verbatim>\<open>reportChanged()\<close> is the last thing the write
  does, and is the operation \<open>OpReactionCallback\<close> next in the history.
\<close>

datatype operation =
    OpGet key
  | OpSet key jsval
  | OpObserverSCU jsval jsval
  | OpComponentDidMount
  | OpComponentWillUnmount
  | OpReactionCallback
  | OpSetScheduleUpdate callback
  | OpReactiveRender "world \<Rightarrow> (error + jsval) \<times> world"

fun perform :: "(jsval \<Rightarrow> jsval \<Rightarrow> bool) \<Rightarrow> operation \<Rightarrow> world \<Rightarrow> world" where
  "perform shallowEqual (OpGet k) w = snd (descriptor_get k w)"
| "perform shallowEqual (OpSet k v) w = descriptor_set recordChanged shallowEqual k v w"
| "perform shallowEqual (OpObserverSCU nextProps nextState) w =
     snd (observerSCU shallowEqual nextProps nextState w)"
| "perform shallowEqual OpComponentDidMount w = snd (componentDidMount None w)"
| "perform shallowEqual OpComponentWillUnmount w = componentWillUnmount w"
| "perform shallowEqual OpReactionCallback w =
     (if reactionAlive w then reactionCallback w else w)"
| "perform shallowEqual (OpSetScheduleUpdate f) w = setScheduleUpdate f w"
| "perform shallowEqual (OpReactiveRender body) w = snd (reactiveRender body w)"

text \<open>
  The specification's "unconsumed invalidation", in its own words: an invalidation is
  recorded by the reaction callback, by an external write of a value that is not shallowly
  equal to the cached one, by the resynchronization on mount and by a positive update
  decision; it is consumed by a successful tracked render. \<open>recordsInvalidation\<close> and
  \<open>consumesInvalidation\<close> say whether the operation, performed in \<open>w\<close>, is one of these.
\<close>

fun recordsInvalidation ::
  "(jsval \<Rightarrow> jsval \<Rightarrow> bool) \<Rightarrow> operation \<Rightarrow> world \<Rightarrow> bool" where
  "recordsInvalidation shallowEqual OpReactionCallback w = reactionAlive w"
| "recordsInvalidation shallowEqual (OpSet k v) w =
     (let admin = fst (getAdministration w)
      in \<not> WeakSet_has (changedVariables admin) v
         \<and> \<not> WeakSet_has (unchangedVariables admin) v
         \<and> \<not> shallowEqual (getKey k admin) v)"
| "recordsInvalidation shallowEqual OpComponentDidMount w =
     (let admin = fst (getAdministration w)
      in \<not> (DEV w \<and> ownComponentDidMount w)
         \<and> (reaction admin = None \<or> pendingStateVersion admin \<noteq> stateVersion admin))"
| "recordsInvalidation shallowEqual (OpObserverSCU nextProps nextState) w =
     fst (observerSCU shallowEqual nextProps nextState w)"
| "recordsInvalidation shallowEqual (OpGet k) w = False"
| "recordsInvalidation shallowEqual OpComponentWillUnmount w = False"
| "recordsInvalidation shallowEqual (OpSetScheduleUpdate f) w = False"
| "recordsInvalidation shallowEqual (OpReactiveRender body) w = False"

fun returned :: "(error + jsval) \<Rightarrow> bool" where
  "returned (Inr v) = True"
| "returned (Inl e) = False"

fun consumesInvalidation :: "operation \<Rightarrow> world \<Rightarrow> bool" where
  "consumesInvalidation (OpReactiveRender body) w =
     (let (r, w2) = ensureReaction w in returned (fst (body (emit (TrackStart r) w2))))"
| "consumesInvalidation op w = False"

fun run ::
  "(jsval \<Rightarrow> jsval \<Rightarrow> bool) \<Rightarrow> operation list \<Rightarrow> world \<times> bool \<Rightarrow> world \<times> bool" where
  "run shallowEqual [] s = s"
| "run shallowEqual (op # ops) (w, unconsumed) =
     run shallowEqual ops
       (perform shallowEqual op w,
        if consumesInvalidation op w then False
        else if recordsInvalidation shallowEqual op w then True
        else unconsumed)"

text \<open>
  A render body that only reads: run on an instance that has its administration record,
  it leaves the record as it found it and takes no token back. Every other operation
  counts as such.
\<close>

fun readOnly :: "operation \<Rightarrow> bool" where
  "readOnly (OpReactiveRender body) =
     (\<forall>w. administration w \<noteq> None \<longrightarrow>
          administration (snd (body w)) = administration w
          \<and> symbols w \<le> symbols (snd (body w)))"
| "readOnly op = True"

text \<open>
  Every token of the record was minted by an earlier \<^verbatim>\<open>Symbol()\<close> call.
\<close>

definition tokensMinted :: "world \<Rightarrow> bool" where
  "tokensMinted w =
     (case administration w of
        None \<Rightarrow> True
      | Some admin \<Rightarrow>
          pendingStateVersion admin < symbols w \<and> stateVersion admin < symbols w)"

text \<open>
  An instance is stale when its record exists and the two tokens differ. A world and the
  flag "an invalidation is unconsumed" agree when the instance is stale exactly if the flag
  is set.
\<close>

definition stale :: "world \<Rightarrow> bool" where
  "stale w =
     (case administration w of
        None \<Rightarrow> False
      | Some admin \<Rightarrow> pendingStateVersion admin \<noteq> stateVersion admin)"

definition versionsAgree :: "world \<times> bool \<Rightarrow> bool" where
  "versionsAgree s = (stale (fst s) = snd s)"

text \<open>
  The step from \<open>w\<close> to \<open>w'\<close> minted the pending token of \<open>w'\<close>: the token is none of
  those that existed in \<open>w\<close>.
\<close>

definition mintsPendingToken :: "world \<Rightarrow> world \<Rightarrow> bool" where
  "mintsPendingToken w w' =
     (case administration w' of
        None \<Rightarrow> False
      | Some admin' \<Rightarrow>
          symbols w \<le> pendingStateVersion admin' \<and> pendingStateVersion admin' < symbols w')"

definition consistent :: "world \<Rightarrow> bool \<Rightarrow> bool" where
  "consistent w unconsumed = (tokensMinted w \<and> versionsAgree (w, unconsumed))"

section \<open>Example inputs\<close>

text \<open>
  An instance of \<^verbatim>\<open>shallowEqual\<close> for the examples: two values are shallowly equal when
  they are identical, or are two objects with the same members; \<open>members\<close> lists the
  members of each object. In \<open>exampleMembers\<close> the objects 0 and 1 hold the same members,
  and every other object differs from them.
\<close>

definition shallowEqualIn :: "(ref \<Rightarrow> (string \<times> int) list) \<Rightarrow> jsval \<Rightarrow> jsval \<Rightarrow> bool" where
  "shallowEqualIn members a b =
     (a = b \<or> (case (a, b) of
                  (Obj x, Obj y) \<Rightarrow> set (members x) = set (members y)
                | _ \<Rightarrow> False))"

definition exampleMembers :: "ref \<Rightarrow> (string \<times> int) list" where
  "exampleMembers r = (if r = 0 \<or> r = 1 then [(''done'', 0)] else [(''done'', int r)])"

definition exampleClass :: componentClass where
  "exampleClass =
     \<lparr>displayName = ''Todo'', className = ''TodoView'', protoChain = [ReactComponent],
      prototype = emptyPrototype\<lparr>proto_render := UserFunction 0\<rparr>,
      isMobxInjector = False, isMobXReactObserver = False\<rparr>"

definition freshWorld :: world where
  "freshWorld =
     \<lparr>administration = None, constructorOf = exampleClass, ownComponentDidMount = False,
      ownRender = None, symbols = 0, trace = [], staticRendering = False, DEV = True\<rparr>"

definition readingRender :: "jsval \<Rightarrow> world \<Rightarrow> (error + jsval) \<times> world" where
  "readingRender v w = (Inr v, snd (descriptor_get PropsKey w))"

definition throwingRender :: "jsval \<Rightarrow> world \<Rightarrow> (error + jsval) \<times> world" where
  "throwingRender e w = (Inl (Thrown e), w)"

text \<open>
  Worlds reached from \<open>freshWorld\<close>: rendered, mounted and registered with the callback 7;
  the same after one invalidation; and an instance mounted in static rendering mode.
\<close>

definition mountedWorld :: world where
  "mountedWorld =
     setScheduleUpdate 7
       (snd (componentDidMount None (snd (reactiveRender (readingRender (Obj 5)) freshWorld))))"

definition staleWorld :: world where
  "staleWorld = reactionCallback mountedWorld"

definition staticMountedWorld :: world where
  "staticMountedWorld = snd (componentDidMount None (freshWorld\<lparr>staticRendering := True\<rparr>))"

text \<open>
  The instance after its first render, before the mount; the same with the callback 7
  registered and an invalidation delivered before the mount; and a rendered instance that
  carries a \<^verbatim>\<open>componentDidMount\<close> of its own.
\<close>

definition renderedWorld :: world where
  "renderedWorld = snd (reactiveRender (readingRender (Obj 5)) freshWorld)"

definition invalidatedBeforeMount :: world where
  "invalidatedBeforeMount = reactionCallback (setScheduleUpdate 7 renderedWorld)"

definition shadowedWorld :: world where
  "shadowedWorld = renderedWorld\<lparr>ownComponentDidMount := True\<rparr>"

text \<open>
  Inputs. The render of the examples reads the props, so the reaction observes the props
  atom. The props object 0 is written to the mounted instance (\<open>propsWorld\<close>); the
  update-decision hook is asked about the props object 1, which holds the same members
  (\<open>proposedWorld\<close>); the proposal is abandoned, the props object 2 is written, and the hook
  is asked about object 1 again, which is a change now (\<open>doublyMarkedWorld\<close>).
\<close>

definition exampleShallowEqual :: "jsval \<Rightarrow> jsval \<Rightarrow> bool" where
  "exampleShallowEqual = shallowEqualIn exampleMembers"

definition propsWorld :: world where
  "propsWorld =
     descriptor_set (reportChanged {PropsKey}) exampleShallowEqual PropsKey (Obj 0) mountedWorld"

definition doublyMarkedWorld :: world where
  "doublyMarkedWorld =
     snd (observerSCU exampleShallowEqual (Obj 1) Undefined
       (descriptor_set (reportChanged {PropsKey}) exampleShallowEqual PropsKey (Obj 2)
         (snd (observerSCU exampleShallowEqual (Obj 1) Undefined propsWorld))))"

definition proposedWorld :: world where
  "proposedWorld = snd (observerSCU exampleShallowEqual (Obj 1) Undefined propsWorld)"

text \<open>
  A store with one subscriber and with two. Classes the wrap operation rejects, the wrapped
  component \<open>observer\<close> returns for \<open>exampleClass\<close>, and a stand-in for the wrap of a
  function component.
\<close>

definition exampleStore :: MobxObserverStore where
  "exampleStore = subscribe 1 (fst (newMobxObserverStore freshWorld))"

definition exampleStore2 :: MobxObserverStore where
  "exampleStore2 = subscribe 2 exampleStore"







text \<open>
  A history: first render, mount, registration of the callback 7, one invalidation.
\<close>

definition exampleHistory :: "operation list" where
  "exampleHistory =
     [OpReactiveRender (readingRender (Obj 5)), OpComponentDidMount, OpSetScheduleUpdate 7,
      OpReactionCallback]"

text \<open>
  The mounted instance after the update-decision hook registered the props object 0 as
  changed and a render committed the pending token before the object is written; the
  class \<open>exampleClass\<close> as its wrap leaves it; and a class that reaches
  \<^verbatim>\<open>PureComponent\<close> through a class of its own.
\<close>

definition committedMarkedWorld :: world where
  "committedMarkedWorld =
     snd (reactiveRender (readingRender (Obj 5))
       (snd (observerSCU exampleShallowEqual (Obj 0) Undefined mountedWorld)))"



section \<open>Facts about the model\<close>

lemma getAdministration_Some:
  "administration w = Some admin \<Longrightarrow> getAdministration w = (admin, w)"
  by (simp add: getAdministration_def)

lemma getAdministration_slot:
  "administration (snd (getAdministration w)) = Some (fst (getAdministration w))"
  by (simp add: getAdministration_def Symbol_def Let_def split: option.splits)

lemma getAdministration_trace: "trace (snd (getAdministration w)) = trace w"
  by (simp add: getAdministration_def Symbol_def Let_def split: option.splits)

lemma WeakSet_consumed: "\<not> WeakSet_has (WeakSet_delete S v) v"
  by (cases v) simp_all

lemma setKey_fields:
  "getKey k (setKey k v admin) = v"
  "pendingStateVersion (setKey k v admin) = pendingStateVersion admin"
  "stateVersion (setKey k v admin) = stateVersion admin"
  "changedVariables (setKey k v admin) = changedVariables admin"
  "unchangedVariables (setKey k v admin) = unchangedVariables admin"
  by (cases k; simp)+

lemma descriptor_get_admin:
  "descriptor_get k w = (getKey k (fst (getAdministration w)),
                         emit (ReportObserved k) (snd (getAdministration w)))"
  by (simp add: descriptor_get_def split_beta Let_def)

lemma getAdministration_emit:
  "getAdministration (emit e w) = (fst (getAdministration w), emit e (snd (getAdministration w)))"
  by (simp add: getAdministration_def emit_def Symbol_def Let_def split: option.splits)

lemma getAdministration_idem:
  "getAdministration (snd (getAdministration w)) = getAdministration w"
  by (simp add: getAdministration_def Symbol_def Let_def split: option.splits)

lemma observerSCU_result:
  assumes ga: "getAdministration w = (admin, w1)"
  shows "observerSCU shallowEqual nextProps nextState w =
     (let pc = (\<not> shallowEqual (props admin) nextProps);
          sc = (\<not> shallowEqual (state admin) nextState);
          su = (pc \<or> sc \<or> pendingStateVersion admin \<noteq> stateVersion admin);
          u2 = emit (ReportObserved StateKey)
                 (emit (ReportObserved PropsKey)
                    (if staticRendering w then emit ConsoleWarn w1 else w1))
      in (su,
          u2\<lparr>administration :=
                Some (admin\<lparr>pendingStateVersion :=
                               (if su then symbols w1 else pendingStateVersion admin),
                             changedVariables :=
                               (if sc then WeakSet_add nextState else id)
                                 ((if pc then WeakSet_add nextProps else id)
                                    (changedVariables admin)),
                             unchangedVariables :=
                               (if sc then id else WeakSet_add nextState)
                                 ((if pc then id else WeakSet_add nextProps)
                                    (unchangedVariables admin))\<rparr>),
              symbols := (if su then Suc (symbols w1) else symbols w1)\<rparr>))"
proof -
  have slot: "administration w1 = Some admin"
    using getAdministration_slot [of w] ga by simp
  define u0 where "u0 = (if staticRendering w then emit ConsoleWarn w1 else w1)"
  define u1 where "u1 = emit (ReportObserved PropsKey) u0"
  define u2 where "u2 = emit (ReportObserved StateKey) u1"
  have g0: "getAdministration (if staticRendering w then emit ConsoleWarn w else w) = (admin, u0)"
    using ga by (simp add: u0_def getAdministration_emit)
  have d1: "descriptor_get PropsKey (if staticRendering w then emit ConsoleWarn w else w)
              = (props admin, u1)"
    by (simp add: descriptor_get_def g0 u1_def)
  have s1: "administration u1 = Some admin"
    by (simp add: u1_def u0_def emit_def slot)
  have d2: "descriptor_get StateKey u1 = (state admin, u2)"
    by (simp add: descriptor_get_def getAdministration_Some [OF s1] u2_def)
  have s2: "administration u2 = Some admin"
    by (simp add: u2_def emit_def s1)
  have g2: "getAdministration u2 = (admin, u2)"
    using s2 by (rule getAdministration_Some)
  have sy: "symbols u2 = symbols w1"
    by (simp add: u2_def u1_def u0_def emit_def)
  have same: "u2\<lparr>symbols := symbols w1\<rparr> = u2"
    using sy by simp
  define pc where "pc = (\<not> shallowEqual (props admin) nextProps)"
  define sc where "sc = (\<not> shallowEqual (state admin) nextState)"
  define eq where "eq = (pendingStateVersion admin = stateVersion admin)"
  have "observerSCU shallowEqual nextProps nextState w =
     (pc \<or> sc \<or> \<not> eq,
      u2\<lparr>administration :=
            Some (admin\<lparr>pendingStateVersion :=
                           (if pc \<or> sc \<or> \<not> eq then symbols w1 else pendingStateVersion admin),
                         changedVariables :=
                           (if sc then WeakSet_add nextState else id)
                             ((if pc then WeakSet_add nextProps else id)
                                (changedVariables admin)),
                         unchangedVariables :=
                           (if sc then id else WeakSet_add nextState)
                             ((if pc then id else WeakSet_add nextProps)
                                (unchangedVariables admin))\<rparr>),
          symbols := (if pc \<or> sc \<or> \<not> eq then Suc (symbols w1) else symbols w1)\<rparr>)"
    by (cases pc; cases sc; cases eq;
        simp add: observerSCU_def d1 d2 g2 Symbol_def sy same pc_def sc_def eq_def Let_def)
  then show ?thesis
    by (simp add: Let_def pc_def sc_def eq_def u2_def u1_def u0_def)
qed

lemma reactiveRender_outcomes:
  "reactiveRender body w =
     (let (r, w2) = ensureReaction w;
          (res, w4) = body (emit (TrackStart r) w2)
      in case res of
           Inr v \<Rightarrow>
             (Inr v,
              emit (TrackEnd r)
                (updateAdministration (\<lambda>a. a\<lparr>stateVersion := pendingStateVersion a\<rparr>) w4))
         | Inl e \<Rightarrow>
             (if error_truthy e then Inl e else Inr Undefined, emit (TrackEnd r) w4))"
  by (simp add: reactiveRender_def Let_def split_beta split: sum.splits)

lemma subscribe_distinct: "distinct (listeners store) \<Longrightarrow> distinct (listeners (subscribe l store))"
  by (simp add: subscribe_def)

lemma unsubscribe_distinct:
  "distinct (listeners store) \<Longrightarrow> distinct (listeners (unsubscribe l store))"
  by (simp add: unsubscribe_def distinct_removeAll)

lemma count_list_distinct: "distinct xs \<Longrightarrow> x \<in> set xs \<Longrightarrow> count_list xs x = 1"
  by (induction xs) auto


lemma setKey_pending:
  "(setKey k v admin)\<lparr>pendingStateVersion := s\<rparr> = setKey k v (admin\<lparr>pendingStateVersion := s\<rparr>)"
  by (cases k) simp_all

lemma setKey_other_fields:
  "reaction (setKey k v admin) = reaction admin"
  "mounted (setKey k v admin) = mounted admin"
  "scheduleUpdate (setKey k v admin) = scheduleUpdate admin"
  by (cases k; simp)+

lemma tokensMinted_getAdministration:
  "tokensMinted w \<Longrightarrow>
     pendingStateVersion (fst (getAdministration w)) < symbols (snd (getAdministration w))
     \<and> stateVersion (fst (getAdministration w)) < symbols (snd (getAdministration w))"
  by (auto simp: tokensMinted_def getAdministration_def Symbol_def Let_def split: option.splits)






subsection \<open>Histories keep the tokens and the unconsumed invalidation in step\<close>

lemma consistent_Some:
  "administration w = Some a \<Longrightarrow>
     consistent w u =
       (pendingStateVersion a < symbols w \<and> stateVersion a < symbols w
        \<and> (pendingStateVersion a = stateVersion a) = (\<not> u))"
  by (auto simp: consistent_def tokensMinted_def versionsAgree_def stale_def)

lemma consistent_None: "administration w = None \<Longrightarrow> consistent w u = (\<not> u)"
  by (simp add: consistent_def tokensMinted_def versionsAgree_def stale_def)

lemma consistent_getAdministration:
  assumes "consistent w u" and ga: "getAdministration w = (a, w1)"
  shows "administration w1 = Some a \<and> pendingStateVersion a < symbols w1
         \<and> stateVersion a < symbols w1
         \<and> (pendingStateVersion a = stateVersion a) = (\<not> u)"
proof (cases "administration w")
  case None
  with assms show ?thesis
    by (auto simp: getAdministration_def Symbol_def Let_def consistent_None)
next
  case (Some b)
  with assms show ?thesis
    by (auto simp: getAdministration_def consistent_Some)
qed

lemma step_get:
  assumes "consistent w u"
  shows "consistent (snd (descriptor_get k w)) u"
proof -
  obtain a w1 where ga: "getAdministration w = (a, w1)" by (cases "getAdministration w")
  from consistent_getAdministration [OF assms ga] show ?thesis
    by (simp add: descriptor_get_def ga emit_def consistent_Some)
qed

lemma step_set:
  assumes "consistent w u"
  shows "consistent (descriptor_set recordChanged shallowEqual k v w)
           (if recordsInvalidation shallowEqual (OpSet k v) w then True else u)"
proof -
  obtain a w1 where ga: "getAdministration w = (a, w1)" by (cases "getAdministration w")
  from consistent_getAdministration [OF assms ga] show ?thesis
    by (auto simp: descriptor_set_def recordChanged_def ga emit_def Symbol_def Let_def
        consistent_Some setKey_fields)
qed

lemma step_scu:
  assumes "consistent w u"
  shows "consistent (snd (observerSCU shallowEqual nextProps nextState w))
           (if fst (observerSCU shallowEqual nextProps nextState w) then True else u)"
proof -
  obtain a w1 where ga: "getAdministration w = (a, w1)" by (cases "getAdministration w")
  from consistent_getAdministration [OF assms ga] show ?thesis
    by (auto simp: observerSCU_result [OF ga] emit_def Let_def consistent_Some)
qed

lemma step_mount:
  assumes "consistent w u"
  shows "consistent (snd (componentDidMount None w))
           (if recordsInvalidation shallowEqual OpComponentDidMount w then True else u)"
proof -
  obtain a w1 where ga: "getAdministration w = (a, w1)" by (cases "getAdministration w")
  from consistent_getAdministration [OF assms ga] assms show ?thesis
    by (auto simp: componentDidMount_def callScheduleUpdate_def ga emit_def Symbol_def Let_def
        consistent_Some split: option.splits)
qed

lemma step_unmount:
  assumes "consistent w u"
  shows "consistent (componentWillUnmount w) u"
proof -
  obtain a w1 where ga: "getAdministration w = (a, w1)" by (cases "getAdministration w")
  from consistent_getAdministration [OF assms ga] assms show ?thesis
    by (auto simp: componentWillUnmount_def ga emit_def Let_def consistent_Some
        split: option.splits)
qed

lemma step_callback:
  assumes "consistent w u"
  shows "consistent (if reactionAlive w then reactionCallback w else w)
           (if reactionAlive w then True else u)"
  using assms
  by (cases "administration w")
     (auto simp: reactionAlive_def reactionCallback_def callScheduleUpdate_def emit_def
        Symbol_def Let_def consistent_Some consistent_None split: option.splits)

lemma step_register:
  assumes "consistent w u"
  shows "consistent (setScheduleUpdate f w) u"
proof -
  obtain a w1 where ga: "getAdministration w = (a, w1)" by (cases "getAdministration w")
  from consistent_getAdministration [OF assms ga] assms show ?thesis
    by (auto simp: setScheduleUpdate_def ga emit_def Let_def consistent_Some)
qed

lemma ensureReaction_consistent:
  assumes "consistent w u" and er: "ensureReaction w = (r, w2)"
  shows "\<exists>a. administration w2 = Some a \<and> pendingStateVersion a < symbols w2
         \<and> stateVersion a < symbols w2
         \<and> (pendingStateVersion a = stateVersion a) = (\<not> u)"
proof -
  obtain a w1 where ga: "getAdministration w = (a, w1)" by (cases "getAdministration w")
  from consistent_getAdministration [OF assms(1) ga] er show ?thesis
    by (auto simp: ensureReaction_def ga emit_def Let_def split: option.splits if_splits)
qed

lemma step_render:
  assumes "consistent w u" and ro: "readOnly (OpReactiveRender body)"
  shows "consistent (snd (reactiveRender body w))
           (if consumesInvalidation (OpReactiveRender body) w then False else u)"
proof -
  obtain r w2 where er: "ensureReaction w = (r, w2)" by (cases "ensureReaction w")
  from ensureReaction_consistent [OF assms(1) er]
  obtain a where a: "administration w2 = Some a" "pendingStateVersion a < symbols w2"
    "stateVersion a < symbols w2" "(pendingStateVersion a = stateVersion a) = (\<not> u)"
    by blast
  define w3 where "w3 = emit (TrackStart r) w2"
  obtain res w4 where b: "body w3 = (res, w4)" by (cases "body w3")
  have a3: "administration w3 = Some a" "symbols w3 = symbols w2"
    by (simp_all add: w3_def emit_def a)
  from ro have "administration w3 \<noteq> None \<longrightarrow>
      administration (snd (body w3)) = administration w3
      \<and> symbols w3 \<le> symbols (snd (body w3))"
    unfolding readOnly.simps by (rule spec)
  with a3 b have a4: "administration w4 = Some a" "symbols w2 \<le> symbols w4"
    by simp_all
  have rr: "snd (reactiveRender body w) =
      (case res of
         Inr v \<Rightarrow>
           emit (TrackEnd r)
             (updateAdministration (\<lambda>a. a\<lparr>stateVersion := pendingStateVersion a\<rparr>) w4)
       | Inl e \<Rightarrow> emit (TrackEnd r) w4)"
    by (simp add: reactiveRender_outcomes er w3_def [symmetric] b split: sum.splits)
  have ci: "consumesInvalidation (OpReactiveRender body) w = returned res"
    by (simp add: er w3_def [symmetric] b)
  show ?thesis
    unfolding rr ci using a a4
    by (cases res) (auto simp: updateAdministration_def emit_def consistent_Some)
qed

lemma step_consistent:
  assumes "readOnly op" "consistent w u"
  shows "consistent (perform shallowEqual op w)
           (if consumesInvalidation op w then False
            else if recordsInvalidation shallowEqual op w then True else u)"
proof (cases op)
  case (OpGet k)
  then show ?thesis using step_get [OF assms(2)] by simp
next
  case (OpSet k v)
  then show ?thesis using step_set [OF assms(2)] by simp
next
  case (OpObserverSCU np ns)
  then show ?thesis using step_scu [OF assms(2)] by simp
next
  case OpComponentDidMount
  then show ?thesis using step_mount [OF assms(2)] by simp
next
  case OpComponentWillUnmount
  then show ?thesis using step_unmount [OF assms(2)] by simp
next
  case OpReactionCallback
  then show ?thesis using step_callback [OF assms(2)] by simp
next
  case (OpSetScheduleUpdate f)
  then show ?thesis using step_register [OF assms(2)] by simp
next
  case (OpReactiveRender body)
  with assms(1) have "readOnly (OpReactiveRender body)" by simp
  from step_render [OF assms(2) this] OpReactiveRender show ?thesis
    by (auto split: if_splits)
qed

lemma run_consistent:
  assumes "\<forall>op \<in> set ops. readOnly op" "consistent w u"
  shows "consistent (fst (run shallowEqual ops (w, u))) (snd (run shallowEqual ops (w, u)))"
  using assms
proof (induction ops arbitrary: w u)
  case Nil
  then show ?case by simp
next
  case (Cons op ops)
  from Cons.prems have "readOnly op" "\<forall>op \<in> set ops. readOnly op" by simp_all
  from step_consistent [OF this(1) Cons.prems(2)] Cons.IH [OF this(2)]
  show ?case by simp
qed


lemma readOnly_readingRender: "readOnly (OpReactiveRender (readingRender v))"
  by (auto simp: readingRender_def descriptor_get_def getAdministration_def emit_def)

lemma getAdministration_symbols: "symbols w \<le> symbols (snd (getAdministration w))"
  by (simp add: getAdministration_def Symbol_def Let_def split: option.splits)

lemma records_mints:
  assumes "recordsInvalidation shallowEqual op w" and "\<not> (op = OpReactionCallback \<and> stale w)"
  shows "mintsPendingToken w (perform shallowEqual op w)"
proof -
  obtain a w1 where ga: "getAdministration w = (a, w1)" by (cases "getAdministration w")
  have le: "symbols w \<le> symbols w1"
    using getAdministration_symbols [of w] ga by simp
  show ?thesis
  proof (cases op)
    case (OpSet k v)
    with assms le show ?thesis
      by (simp add: descriptor_set_def recordChanged_def ga Symbol_def emit_def Let_def
          mintsPendingToken_def)
  next
    case (OpObserverSCU np ns)
    with assms le show ?thesis
      by (simp add: observerSCU_result [OF ga] Let_def mintsPendingToken_def emit_def)
  next
    case OpComponentDidMount
    with assms le show ?thesis
      by (auto simp: componentDidMount_def callScheduleUpdate_def ga Symbol_def emit_def Let_def
          mintsPendingToken_def split: option.splits)
  next
    case OpReactionCallback
    with assms show ?thesis
      by (auto simp: reactionAlive_def stale_def reactionCallback_def callScheduleUpdate_def
          Symbol_def emit_def Let_def mintsPendingToken_def split: option.splits)
  qed (use assms in simp_all)
qed

text \<open>
  A write with the engine's \<open>reportChanged\<close> inside is the write of a history, followed
  by the callback operation when the setter marks the atom changed and the reaction read
  the input in its last run.
\<close>

lemma write_is_set_then_callback:
  "descriptor_set (reportChanged observed) shallowEqual k v w =
     (let admin = fst (getAdministration w);
          w' = perform shallowEqual (OpSet k v) w
      in if k \<in> observed
            \<and> (WeakSet_has (changedVariables admin) v
               \<or> (\<not> WeakSet_has (unchangedVariables admin) v
                  \<and> \<not> shallowEqual (getKey k admin) v))
         then perform shallowEqual OpReactionCallback w'
         else w')"
  by (simp add: descriptor_set_def reportChanged_def recordChanged_def Let_def split_beta)

section \<open>Facts about the examples\<close>

lemmas model_defs =
  getAdministration_def Symbol_def emit_def descriptor_get_def descriptor_set_def
  recordChanged_def reportChanged_def reactionAlive_def
  setScheduleUpdate_def callScheduleUpdate_def componentDidMount_def componentWillUnmount_def
  observerSCU_def createReaction_def reactionCallback_def updateAdministration_def
  ensureReaction_def reactiveRender_def getDisplayName_def

lemmas example_defs =
  freshWorld_def exampleClass_def emptyPrototype_def readingRender_def throwingRender_def
  shallowEqualIn_def exampleMembers_def

lemma mountedWorld_admin:
  "administration mountedWorld =
     Some \<lparr>reaction = Some ''Todo.render()'', scheduleUpdate = Some 7, mounted = True,
           name = ''Todo'', props = Undefined, state = Undefined, context' = Undefined,
           pendingStateVersion = 0, stateVersion = 0, changedVariables = {},
           unchangedVariables = {}\<rparr>"
  by (simp add: mountedWorld_def model_defs example_defs Let_def)

lemma mountedWorld_symbols: "symbols mountedWorld = 1"
  by (simp add: mountedWorld_def model_defs example_defs Let_def)

lemma mountedWorld_trace:
  "trace mountedWorld =
     [RegistryRegister, TrackStart ''Todo.render()'', ReportObserved PropsKey,
      TrackEnd ''Todo.render()'', RegistryUnregister]"
  by (simp add: mountedWorld_def model_defs example_defs Let_def)

lemma staleWorld_admin:
  "administration staleWorld =
     Some \<lparr>reaction = Some ''Todo.render()'', scheduleUpdate = Some 7, mounted = True,
           name = ''Todo'', props = Undefined, state = Undefined, context' = Undefined,
           pendingStateVersion = 1, stateVersion = 0, changedVariables = {},
           unchangedVariables = {}\<rparr>"
  by (simp add: staleWorld_def reactionCallback_def mountedWorld_admin mountedWorld_symbols
      Symbol_def callScheduleUpdate_def emit_def Let_def)

lemma staleWorld_static: "\<not> staticRendering staleWorld"
  by (simp add: staleWorld_def mountedWorld_def model_defs example_defs Let_def)

lemma staticMountedWorld_admin:
  "administration staticMountedWorld =
     Some \<lparr>reaction = None, scheduleUpdate = None, mounted = True,
           name = ''Todo'', props = Undefined, state = Undefined, context' = Undefined,
           pendingStateVersion = 1, stateVersion = 0, changedVariables = {},
           unchangedVariables = {}\<rparr>"
  by (simp add: staticMountedWorld_def model_defs example_defs Let_def)

lemma staticMountedWorld_static: "staticRendering staticMountedWorld"
  by (simp add: staticMountedWorld_def model_defs example_defs Let_def)

lemma invalidatedBeforeMount_admin:
  "administration invalidatedBeforeMount =
     Some \<lparr>reaction = Some ''Todo.render()'', scheduleUpdate = Some 7, mounted = False,
           name = ''Todo'', props = Undefined, state = Undefined, context' = Undefined,
           pendingStateVersion = 1, stateVersion = 0, changedVariables = {},
           unchangedVariables = {}\<rparr>"
  by (simp add: invalidatedBeforeMount_def renderedWorld_def model_defs example_defs Let_def)

lemma invalidatedBeforeMount_rest:
  "symbols invalidatedBeforeMount = 2 \<and> \<not> staticRendering invalidatedBeforeMount
   \<and> \<not> ownComponentDidMount invalidatedBeforeMount
   \<and> trace invalidatedBeforeMount =
       [RegistryRegister, TrackStart ''Todo.render()'', ReportObserved PropsKey,
        TrackEnd ''Todo.render()'']"
  by (simp add: invalidatedBeforeMount_def renderedWorld_def model_defs example_defs Let_def)

lemma exampleShallowEqual_simps:
  "exampleShallowEqual Undefined Undefined"
  "exampleShallowEqual (Obj 0) (Obj 1)"
  "\<not> exampleShallowEqual Undefined (Obj 0)"
  "\<not> exampleShallowEqual (Obj 0) (Obj 2)"
  "\<not> exampleShallowEqual (Obj 2) (Obj 1)"
  "exampleShallowEqual (Obj 0) (Obj (Suc 0))"
  "\<not> exampleShallowEqual (Obj 2) (Obj (Suc 0))"
  by (simp_all add: exampleShallowEqual_def shallowEqualIn_def exampleMembers_def)

lemma propsWorld_admin:
  "administration propsWorld =
     Some \<lparr>reaction = Some ''Todo.render()'', scheduleUpdate = Some 7, mounted = True,
           name = ''Todo'', props = Obj 0, state = Undefined, context' = Undefined,
           pendingStateVersion = 1, stateVersion = 0, changedVariables = {},
           unchangedVariables = {}\<rparr>"
  by (simp add: propsWorld_def descriptor_set_def reportChanged_def reactionAlive_def
     reactionCallback_def getAdministration_Some [OF mountedWorld_admin]
     exampleShallowEqual_simps Symbol_def emit_def mountedWorld_symbols Let_def)

lemma propsWorld_rest:
  "symbols propsWorld = 2 \<and> \<not> staticRendering propsWorld
   \<and> trace propsWorld = trace mountedWorld @ [ReportChanged PropsKey]"
  by (simp add: propsWorld_def descriptor_set_def reportChanged_def reactionAlive_def
     reactionCallback_def getAdministration_Some [OF mountedWorld_admin]
     exampleShallowEqual_simps Symbol_def emit_def mountedWorld_symbols Let_def,
      simp add: mountedWorld_def model_defs example_defs Let_def)


lemma doublyMarkedWorld_admin:
  "administration doublyMarkedWorld =
     Some \<lparr>reaction = Some ''Todo.render()'', scheduleUpdate = Some 7, mounted = True,
           name = ''Todo'', props = Obj 2, state = Undefined, context' = Undefined,
           pendingStateVersion = 4, stateVersion = 0, changedVariables = {1},
           unchangedVariables = {1}\<rparr>"
  by (simp add: doublyMarkedWorld_def propsWorld_def mountedWorld_def model_defs example_defs exampleShallowEqual_def Let_def)

lemma doublyMarkedWorld_symbols: "symbols doublyMarkedWorld = 5"
  by (simp add: doublyMarkedWorld_def propsWorld_def mountedWorld_def model_defs example_defs
      exampleShallowEqual_def Let_def)

lemma proposedWorld_admin:
  "administration proposedWorld =
     Some \<lparr>reaction = Some ''Todo.render()'', scheduleUpdate = Some 7, mounted = True,
           name = ''Todo'', props = Obj 0, state = Undefined, context' = Undefined,
           pendingStateVersion = 2, stateVersion = 0, changedVariables = {},
           unchangedVariables = {1}\<rparr>"
  by (simp add: proposedWorld_def propsWorld_def mountedWorld_def model_defs example_defs
      exampleShallowEqual_def Let_def)

lemma proposedWorld_symbols: "symbols proposedWorld = 3"
  by (simp add: proposedWorld_def propsWorld_def mountedWorld_def model_defs example_defs
      exampleShallowEqual_def Let_def)

lemma exampleStore_eq: "exampleStore = \<lparr>value' = 0, listeners = [1]\<rparr>"
  by (simp add: exampleStore_def subscribe_def newMobxObserverStore_def Symbol_def freshWorld_def)

lemma exampleStore2_eq: "exampleStore2 = \<lparr>value' = 0, listeners = [1, 2]\<rparr>"
  by (simp add: exampleStore2_def exampleStore_eq subscribe_def)

lemma exampleHistory_run:
  "run exampleShallowEqual exampleHistory (freshWorld, False) = (staleWorld, True)"
  by (simp add: exampleHistory_def staleWorld_def mountedWorld_def reactionAlive_def
      model_defs example_defs Let_def)

lemma staleWorld_symbols: "symbols staleWorld = 2"
  by (simp add: staleWorld_def reactionCallback_def mountedWorld_admin mountedWorld_symbols
      Symbol_def callScheduleUpdate_def emit_def Let_def)

lemma committedMarkedWorld_admin:
  "administration committedMarkedWorld =
     Some \<lparr>reaction = Some ''Todo.render()'', scheduleUpdate = Some 7, mounted = True,
           name = ''Todo'', props = Undefined, state = Undefined, context' = Undefined,
           pendingStateVersion = 1, stateVersion = 1, changedVariables = {0},
           unchangedVariables = {}\<rparr>"
  by (simp add: committedMarkedWorld_def mountedWorld_def model_defs example_defs
      exampleShallowEqual_def Let_def)

lemma committedMarkedWorld_symbols: "symbols committedMarkedWorld = 2"
  by (simp add: committedMarkedWorld_def mountedWorld_def model_defs example_defs
      exampleShallowEqual_def Let_def)

lemma mountedWorld_tokensMinted: "tokensMinted mountedWorld"
  by (simp add: tokensMinted_def mountedWorld_admin mountedWorld_symbols)


section \<open>The invalidation callback of the reaction\<close>

text \<open>
  C2, as amended. The callback of the reaction first compares the two tokens. When they
  are equal it mints a fresh pending token and, if the instance is mounted and a notify
  callback is registered, calls it with the new token. When they already differ (an
  earlier invalidation is still waiting for its render) the callback changes nothing: no
  token is minted and nobody is notified.
\<close>

theorem reactionCallback_guarded:
  assumes "administration w = Some admin"
  shows "(pendingStateVersion admin = stateVersion admin \<longrightarrow>
            administration (reactionCallback w) = Some (admin\<lparr>pendingStateVersion := symbols w\<rparr>)
            \<and> symbols (reactionCallback w) = Suc (symbols w)
            \<and> trace (reactionCallback w) =
                trace w @ (if mounted admin
                           then (case scheduleUpdate admin of
                                   None \<Rightarrow> []
                                 | Some f \<Rightarrow> [ScheduleUpdate f (symbols w)])
                           else [])
            \<and> (tokensMinted w \<longrightarrow> symbols w \<noteq> stateVersion admin))
       \<and> (pendingStateVersion admin \<noteq> stateVersion admin \<longrightarrow> reactionCallback w = w)"
  using assms
  by (auto simp: reactionCallback_def Symbol_def callScheduleUpdate_def emit_def tokensMinted_def
      Let_def split: option.splits)

theorem reactionCallback_guarded_witness:
  "administration (reactionCallback mountedWorld) =
     Some \<lparr>reaction = Some ''Todo.render()'', scheduleUpdate = Some 7, mounted = True,
           name = ''Todo'', props = Undefined, state = Undefined, context' = Undefined,
           pendingStateVersion = 1, stateVersion = 0, changedVariables = {},
           unchangedVariables = {}\<rparr>
   \<and> symbols (reactionCallback mountedWorld) = 2
   \<and> trace (reactionCallback mountedWorld) = trace mountedWorld @ [ScheduleUpdate 7 1]"
  using reactionCallback_guarded [OF mountedWorld_admin]
  by (simp add: mountedWorld_symbols)

text \<open>
  C2 as stated fails: in \<open>staleWorld\<close> the instance is mounted, the callback 7 is
  registered and one invalidation is pending. The callback of the reaction fires again and
  mints no token, leaves the pending token as it was and notifies nobody.
\<close>

theorem reactionCallback_stale_counterexample:
  "map_option mounted (administration staleWorld) = Some True
   \<and> map_option scheduleUpdate (administration staleWorld) = Some (Some 7)
   \<and> symbols (reactionCallback staleWorld) = symbols staleWorld
   \<and> map_option pendingStateVersion (administration (reactionCallback staleWorld)) =
       map_option pendingStateVersion (administration staleWorld)
   \<and> trace (reactionCallback staleWorld) = trace staleWorld"
  by (simp add: staleWorld_def reactionCallback_def mountedWorld_admin mountedWorld_symbols
      mountedWorld_trace Symbol_def callScheduleUpdate_def emit_def Let_def)

section \<open>Registering the update callback\<close>

text \<open>
  C10, as amended. Outside static rendering mode, \<open>setScheduleUpdate\<close> stores the
  callback on the administration record and, when the instance is mounted and the pending
  token differs from the committed one, calls it once with the current pending token; when
  the instance is not mounted or the tokens are equal it calls nothing. In static rendering
  mode it returns at once: the callback is neither stored nor called.
\<close>

theorem setScheduleUpdate_registers:
  "(\<not> staticRendering w \<longrightarrow>
      administration (setScheduleUpdate f w) =
        Some ((fst (getAdministration w))\<lparr>scheduleUpdate := Some f\<rparr>)
      \<and> symbols (setScheduleUpdate f w) = symbols (snd (getAdministration w))
      \<and> trace (setScheduleUpdate f w) =
          trace w @ (if pendingStateVersion (fst (getAdministration w))
                          \<noteq> stateVersion (fst (getAdministration w))
                        \<and> mounted (fst (getAdministration w))
                     then [ScheduleUpdate f (pendingStateVersion (fst (getAdministration w)))]
                     else []))
   \<and> (staticRendering w \<longrightarrow> setScheduleUpdate f w = w)"
  by (simp add: setScheduleUpdate_def emit_def Let_def split_beta getAdministration_trace)

theorem setScheduleUpdate_registers_witness:
  "\<not> staticRendering staleWorld
   \<and> map_option scheduleUpdate (administration (setScheduleUpdate 8 staleWorld)) = Some (Some 8)
   \<and> trace (setScheduleUpdate 8 staleWorld) = trace staleWorld @ [ScheduleUpdate 8 1]
   \<and> staticRendering staticMountedWorld
   \<and> setScheduleUpdate 8 staticMountedWorld = staticMountedWorld"
  using setScheduleUpdate_registers [of staleWorld 8]
    setScheduleUpdate_registers [of staticMountedWorld 8]
  by (simp add: staleWorld_static staticMountedWorld_static
      getAdministration_Some [OF staleWorld_admin] staleWorld_admin)

text \<open>
  C10 as stated fails: \<open>staticMountedWorld\<close> is in static rendering mode, its instance is
  mounted and its two tokens differ. Registering the callback 7 there stores nothing: the
  record still has no callback afterwards (and nothing is called).
\<close>

theorem setScheduleUpdate_static_counterexample:
  "map_option mounted (administration staticMountedWorld) = Some True
   \<and> map_option pendingStateVersion (administration staticMountedWorld)
       \<noteq> map_option stateVersion (administration staticMountedWorld)
   \<and> map_option scheduleUpdate (administration (setScheduleUpdate 7 staticMountedWorld))
       = Some None
   \<and> trace (setScheduleUpdate 7 staticMountedWorld) = trace staticMountedWorld"
  by (simp add: setScheduleUpdate_def staticMountedWorld_admin staticMountedWorld_static)

section \<open>Unmount\<close>

text \<open>
  C7, as amended. Outside static rendering mode, the unmount hook disposes the reaction if
  one exists, clears the reaction handle and sets \<open>mounted\<close> to false; it returns a world
  and never raises, and a second unmount (the reaction now absent) changes nothing more.
  In static rendering mode the hook returns at once and leaves the record, \<open>mounted\<close>
  included, as it was.
\<close>

theorem componentWillUnmount_disposes:
  "(\<not> staticRendering w \<longrightarrow>
      administration (componentWillUnmount w) =
        Some ((fst (getAdministration w))\<lparr>reaction := None, mounted := False\<rparr>)
      \<and> trace (componentWillUnmount w) =
          trace w @ (case reaction (fst (getAdministration w)) of
                       None \<Rightarrow> []
                     | Some r \<Rightarrow> [ReactionDispose r])
      \<and> symbols (componentWillUnmount w) = symbols (snd (getAdministration w))
      \<and> componentWillUnmount (componentWillUnmount w) = componentWillUnmount w)
   \<and> (staticRendering w \<longrightarrow> componentWillUnmount w = w)"
  by (auto simp: componentWillUnmount_def emit_def Let_def split_beta getAdministration_trace
      getAdministration_def Symbol_def split: option.splits)

theorem componentWillUnmount_disposes_witness:
  "\<not> staticRendering staleWorld
   \<and> map_option reaction (administration (componentWillUnmount staleWorld)) = Some None
   \<and> map_option mounted (administration (componentWillUnmount staleWorld)) = Some False
   \<and> trace (componentWillUnmount staleWorld) =
       trace staleWorld @ [ReactionDispose ''Todo.render()'']
   \<and> trace (componentWillUnmount (componentWillUnmount staleWorld)) =
       trace staleWorld @ [ReactionDispose ''Todo.render()'']
   \<and> staticRendering staticMountedWorld
   \<and> componentWillUnmount staticMountedWorld = staticMountedWorld"
  using componentWillUnmount_disposes [of staleWorld]
    componentWillUnmount_disposes [of staticMountedWorld]
  by (simp add: staleWorld_static staticMountedWorld_static
      getAdministration_Some [OF staleWorld_admin])

text \<open>
  C7 as stated fails: in \<open>staticMountedWorld\<close> the reaction is absent and the instance is
  mounted; after the unmount hook \<open>mounted\<close> is still true.
\<close>

theorem componentWillUnmount_static_counterexample:
  "map_option reaction (administration staticMountedWorld) = Some None
   \<and> map_option mounted (administration (componentWillUnmount staticMountedWorld)) = Some True"
  by (simp add: componentWillUnmount_def staticMountedWorld_admin staticMountedWorld_static)

section \<open>Mount\<close>

text \<open>
  C4, as amended. Unless the development build finds a \<^verbatim>\<open>componentDidMount\<close> on the
  instance that is not the prototype's, the mount hook sets \<open>mounted\<close> to true and
  unregisters the instance from the finalization registry; then, if no reaction exists or
  the pending token differs from the committed one, it mints a fresh pending token and
  calls the registered notify callback exactly once with it (nothing is called when no
  callback is registered); otherwise it mints nothing and notifies nobody. The original
  hook of the class, if any, runs after that. When the development build finds such a
  \<^verbatim>\<open>componentDidMount\<close>, the hook throws before it changes anything.
\<close>

theorem componentDidMount_resynchronizes:
  "(\<not> (DEV w \<and> ownComponentDidMount w) \<longrightarrow>
      (\<exists>w3. componentDidMount originalComponentDidMount w =
               (case originalComponentDidMount of
                  None \<Rightarrow> (Inr Undefined, w3)
                | Some f \<Rightarrow> f w3)
            \<and> (let admin = fst (getAdministration w); w1 = snd (getAdministration w) in
               if reaction admin = None \<or> pendingStateVersion admin \<noteq> stateVersion admin
               then administration w3 =
                      Some (admin\<lparr>mounted := True, pendingStateVersion := symbols w1\<rparr>)
                    \<and> symbols w3 = Suc (symbols w1)
                    \<and> trace w3 =
                        trace w @ RegistryUnregister #
                          (case scheduleUpdate admin of
                             None \<Rightarrow> []
                           | Some f \<Rightarrow> [ScheduleUpdate f (symbols w1)])
               else administration w3 = Some (admin\<lparr>mounted := True\<rparr>)
                    \<and> symbols w3 = symbols w1
                    \<and> trace w3 = trace w @ [RegistryUnregister])))
   \<and> (DEV w \<and> ownComponentDidMount w \<longrightarrow>
        componentDidMount originalComponentDidMount w =
          (Inl (DidMountNotOnPrototype (getDisplayName (constructorOf w))), w))"
  by (auto simp: componentDidMount_def callScheduleUpdate_def emit_def Symbol_def Let_def
      split_beta getAdministration_trace split: option.splits)

theorem componentDidMount_resynchronizes_witness:
  "\<not> (DEV invalidatedBeforeMount \<and> ownComponentDidMount invalidatedBeforeMount)
   \<and> fst (componentDidMount None invalidatedBeforeMount) = Inr Undefined
   \<and> map_option mounted (administration (snd (componentDidMount None invalidatedBeforeMount)))
       = Some True
   \<and> map_option pendingStateVersion
        (administration (snd (componentDidMount None invalidatedBeforeMount))) = Some 2
   \<and> trace (snd (componentDidMount None invalidatedBeforeMount)) =
       trace invalidatedBeforeMount @ [RegistryUnregister, ScheduleUpdate 7 2]
   \<and> DEV shadowedWorld \<and> ownComponentDidMount shadowedWorld
   \<and> componentDidMount None shadowedWorld = (Inl (DidMountNotOnPrototype ''Todo''), shadowedWorld)"
proof -
  have first:
    "\<not> (DEV invalidatedBeforeMount \<and> ownComponentDidMount invalidatedBeforeMount)
     \<and> fst (componentDidMount None invalidatedBeforeMount) = Inr Undefined
     \<and> map_option mounted (administration (snd (componentDidMount None invalidatedBeforeMount)))
         = Some True
     \<and> map_option pendingStateVersion
          (administration (snd (componentDidMount None invalidatedBeforeMount))) = Some 2
     \<and> trace (snd (componentDidMount None invalidatedBeforeMount)) =
         trace invalidatedBeforeMount @ [RegistryUnregister, ScheduleUpdate 7 2]"
    using componentDidMount_resynchronizes [of invalidatedBeforeMount None]
    by (auto simp add: invalidatedBeforeMount_rest invalidatedBeforeMount_admin
        getAdministration_Some [OF invalidatedBeforeMount_admin])
  have shadowed: "DEV shadowedWorld \<and> ownComponentDidMount shadowedWorld
     \<and> getDisplayName (constructorOf shadowedWorld) = ''Todo''"
    by (simp add: shadowedWorld_def renderedWorld_def model_defs example_defs Let_def)
  have second:
    "componentDidMount None shadowedWorld = (Inl (DidMountNotOnPrototype ''Todo''), shadowedWorld)"
    using componentDidMount_resynchronizes [of shadowedWorld None] shadowed by simp
  from first shadowed second show ?thesis by simp
qed

text \<open>
  C4 as stated fails: \<open>shadowedWorld\<close> is a rendered instance of a development build that
  carries its own \<^verbatim>\<open>componentDidMount\<close>. The mount hook throws there: \<open>mounted\<close> stays
  false and the instance is not unregistered from the finalization registry.
\<close>

theorem componentDidMount_guard_counterexample:
  "fst (componentDidMount None shadowedWorld) = Inl (DidMountNotOnPrototype ''Todo'')
   \<and> map_option mounted (administration (snd (componentDidMount None shadowedWorld)))
       = Some False
   \<and> RegistryUnregister \<notin> set (trace (snd (componentDidMount None shadowedWorld)))"
  by (simp add: shadowedWorld_def renderedWorld_def model_defs example_defs Let_def)

section \<open>Writing an input\<close>

text \<open>
  C1, as amended. For every input category and every written value \<open>v\<close>, the write first
  looks \<open>v\<close> up in \<open>changedVariables\<close> (the values the update decision registered as
  changed): if it is there, the write consumes that marker, updates the cache and marks the
  atom changed. The setter's own statements mint no token in this case, but marking the
  atom changed makes the engine run, inside the write, the invalidation callback of the
  instance's reaction when the reaction exists and read this input in its last run; that
  callback mints a fresh pending token (and notifies, if the instance is mounted and a
  callback is registered) exactly when the pending token equals the committed one. Else,
  if \<open>v\<close> is in \<open>unchangedVariables\<close>, the write consumes that marker and updates the
  cache, and neither mints a token nor marks the atom changed. Else, if \<open>v\<close> is not
  shallowly equal to the cached value, the write updates the cache, mints a fresh pending
  token and marks the atom changed (the tokens of the record having been minted earlier,
  the callback, if the engine runs it, finds the two tokens different and does nothing).
  Otherwise it updates the cache only.
\<close>

theorem descriptor_set_branches:
  "let admin = fst (getAdministration w);
       w1 = snd (getAdministration w);
       w' = descriptor_set (reportChanged observed) shallowEqual k v w;
       callbackMints = (k \<in> observed \<and> reaction admin \<noteq> None
                        \<and> pendingStateVersion admin = stateVersion admin)
   in (WeakSet_has (changedVariables admin) v \<longrightarrow>
         administration w' =
           Some (setKey k v
                  (admin\<lparr>changedVariables := WeakSet_delete (changedVariables admin) v,
                         pendingStateVersion :=
                           (if callbackMints then symbols w1 else pendingStateVersion admin)\<rparr>))
         \<and> symbols w' = (if callbackMints then Suc (symbols w1) else symbols w1)
         \<and> trace w' =
             trace w @ ReportChanged k #
               (if callbackMints \<and> mounted admin
                then (case scheduleUpdate admin of
                        None \<Rightarrow> []
                      | Some f \<Rightarrow> [ScheduleUpdate f (symbols w1)])
                else []))
    \<and> (\<not> WeakSet_has (changedVariables admin) v
        \<and> WeakSet_has (unchangedVariables admin) v \<longrightarrow>
         administration w' =
           Some (setKey k v
                  (admin\<lparr>unchangedVariables := WeakSet_delete (unchangedVariables admin) v\<rparr>))
         \<and> symbols w' = symbols w1
         \<and> trace w' = trace w)
    \<and> (\<not> WeakSet_has (changedVariables admin) v
        \<and> \<not> WeakSet_has (unchangedVariables admin) v
        \<and> \<not> shallowEqual (getKey k admin) v
        \<and> tokensMinted w \<longrightarrow>
         administration w' = Some ((setKey k v admin)\<lparr>pendingStateVersion := symbols w1\<rparr>)
         \<and> symbols w' = Suc (symbols w1)
         \<and> trace w' = trace w @ [ReportChanged k])
    \<and> (\<not> WeakSet_has (changedVariables admin) v
        \<and> \<not> WeakSet_has (unchangedVariables admin) v
        \<and> shallowEqual (getKey k admin) v \<longrightarrow>
         administration w' = Some (setKey k v admin)
         \<and> symbols w' = symbols w1
         \<and> trace w' = trace w)"
proof -
  obtain admin w1 where ga: "getAdministration w = (admin, w1)"
    by (cases "getAdministration w")
  have tr: "trace w1 = trace w"
    using getAdministration_trace [of w] ga by simp
  have fresh: "tokensMinted w \<Longrightarrow> stateVersion admin \<noteq> symbols w1"
    using tokensMinted_getAdministration [of w] ga by simp
  show ?thesis
    unfolding Let_def ga fst_conv snd_conv
    using fresh
    by (auto simp: descriptor_set_def reportChanged_def reactionAlive_def reactionCallback_def
        callScheduleUpdate_def ga Symbol_def emit_def Let_def tr setKey_fields
        setKey_other_fields setKey_pending split: option.splits)
qed

theorem descriptor_set_branches_witness:
  "WeakSet_has (changedVariables (the (administration committedMarkedWorld))) (Obj 0)
   \<and> PropsKey \<in> {PropsKey}
   \<and> map_option pendingStateVersion (administration committedMarkedWorld) = Some 1
   \<and> map_option stateVersion (administration committedMarkedWorld) = Some 1
   \<and> map_option props (administration
        (descriptor_set (reportChanged {PropsKey}) exampleShallowEqual PropsKey (Obj 0)
           committedMarkedWorld)) = Some (Obj 0)
   \<and> map_option changedVariables (administration
        (descriptor_set (reportChanged {PropsKey}) exampleShallowEqual PropsKey (Obj 0)
           committedMarkedWorld)) = Some {}
   \<and> map_option pendingStateVersion (administration
        (descriptor_set (reportChanged {PropsKey}) exampleShallowEqual PropsKey (Obj 0)
           committedMarkedWorld)) = Some 2
   \<and> symbols (descriptor_set (reportChanged {PropsKey}) exampleShallowEqual PropsKey (Obj 0)
               committedMarkedWorld) = 3
   \<and> trace (descriptor_set (reportChanged {PropsKey}) exampleShallowEqual PropsKey (Obj 0)
               committedMarkedWorld) =
       trace committedMarkedWorld @ [ReportChanged PropsKey, ScheduleUpdate 7 2]
   \<and> WeakSet_has (changedVariables (the (administration doublyMarkedWorld))) (Obj 1)
   \<and> map_option props (administration
        (descriptor_set (reportChanged {PropsKey}) exampleShallowEqual PropsKey (Obj 1)
           doublyMarkedWorld)) = Some (Obj 1)
   \<and> map_option changedVariables (administration
        (descriptor_set (reportChanged {PropsKey}) exampleShallowEqual PropsKey (Obj 1)
           doublyMarkedWorld)) = Some {}
   \<and> map_option pendingStateVersion (administration
        (descriptor_set (reportChanged {PropsKey}) exampleShallowEqual PropsKey (Obj 1)
           doublyMarkedWorld)) = Some 4
   \<and> symbols (descriptor_set (reportChanged {PropsKey}) exampleShallowEqual PropsKey (Obj 1)
               doublyMarkedWorld) = 5
   \<and> trace (descriptor_set (reportChanged {PropsKey}) exampleShallowEqual PropsKey (Obj 1)
               doublyMarkedWorld) =
       trace doublyMarkedWorld @ [ReportChanged PropsKey]
   \<and> \<not> WeakSet_has (changedVariables (the (administration proposedWorld))) (Obj 1)
   \<and> WeakSet_has (unchangedVariables (the (administration proposedWorld))) (Obj 1)
   \<and> map_option props (administration
        (descriptor_set (reportChanged {PropsKey}) exampleShallowEqual PropsKey (Obj 1)
           proposedWorld)) = Some (Obj 1)
   \<and> map_option unchangedVariables (administration
        (descriptor_set (reportChanged {PropsKey}) exampleShallowEqual PropsKey (Obj 1)
           proposedWorld)) = Some {}
   \<and> map_option pendingStateVersion (administration
        (descriptor_set (reportChanged {PropsKey}) exampleShallowEqual PropsKey (Obj 1)
           proposedWorld)) = Some 2
   \<and> symbols (descriptor_set (reportChanged {PropsKey}) exampleShallowEqual PropsKey (Obj 1)
               proposedWorld) = 3
   \<and> trace (descriptor_set (reportChanged {PropsKey}) exampleShallowEqual PropsKey (Obj 1)
               proposedWorld) = trace proposedWorld
   \<and> \<not> WeakSet_has (changedVariables (the (administration mountedWorld))) (Obj 0)
   \<and> \<not> WeakSet_has (unchangedVariables (the (administration mountedWorld))) (Obj 0)
   \<and> \<not> exampleShallowEqual (props (the (administration mountedWorld))) (Obj 0)
   \<and> tokensMinted mountedWorld
   \<and> map_option pendingStateVersion (administration
        (descriptor_set (reportChanged {PropsKey}) exampleShallowEqual PropsKey (Obj 0)
           mountedWorld)) = Some 1
   \<and> symbols (descriptor_set (reportChanged {PropsKey}) exampleShallowEqual PropsKey (Obj 0)
               mountedWorld) = 2
   \<and> trace (descriptor_set (reportChanged {PropsKey}) exampleShallowEqual PropsKey (Obj 0)
               mountedWorld) =
       trace mountedWorld @ [ReportChanged PropsKey]
   \<and> \<not> WeakSet_has (changedVariables (the (administration propsWorld))) (Obj 1)
   \<and> \<not> WeakSet_has (unchangedVariables (the (administration propsWorld))) (Obj 1)
   \<and> exampleShallowEqual (props (the (administration propsWorld))) (Obj 1)
   \<and> map_option props (administration
        (descriptor_set (reportChanged {PropsKey}) exampleShallowEqual PropsKey (Obj 1)
           propsWorld)) = Some (Obj 1)
   \<and> map_option pendingStateVersion (administration
        (descriptor_set (reportChanged {PropsKey}) exampleShallowEqual PropsKey (Obj 1)
           propsWorld)) = Some 1
   \<and> symbols (descriptor_set (reportChanged {PropsKey}) exampleShallowEqual PropsKey (Obj 1)
               propsWorld) = 2
   \<and> trace (descriptor_set (reportChanged {PropsKey}) exampleShallowEqual PropsKey (Obj 1)
               propsWorld) = trace propsWorld"
  using descriptor_set_branches
      [of committedMarkedWorld "{PropsKey}" exampleShallowEqual PropsKey "Obj 0"]
    descriptor_set_branches [of doublyMarkedWorld "{PropsKey}" exampleShallowEqual PropsKey "Obj 1"]
    descriptor_set_branches [of proposedWorld "{PropsKey}" exampleShallowEqual PropsKey "Obj 1"]
    descriptor_set_branches [of mountedWorld "{PropsKey}" exampleShallowEqual PropsKey "Obj 0"]
    descriptor_set_branches [of propsWorld "{PropsKey}" exampleShallowEqual PropsKey "Obj 1"]
  by (simp add: Let_def getAdministration_Some [OF doublyMarkedWorld_admin]
      getAdministration_Some [OF mountedWorld_admin]
      getAdministration_Some [OF proposedWorld_admin]
      getAdministration_Some [OF propsWorld_admin]
      getAdministration_Some [OF committedMarkedWorld_admin]
      doublyMarkedWorld_admin mountedWorld_admin proposedWorld_admin propsWorld_admin
      committedMarkedWorld_admin committedMarkedWorld_symbols doublyMarkedWorld_symbols
      mountedWorld_symbols proposedWorld_symbols propsWorld_rest exampleShallowEqual_simps
      mountedWorld_tokensMinted)

text \<open>
  C1 as stated fails at two inputs. In \<open>doublyMarkedWorld\<close> the object 1 is in
  \<open>unchangedVariables\<close> (and in \<open>changedVariables\<close> as well): writing it as props marks
  the props atom changed, and leaves its marker in \<open>unchangedVariables\<close> unconsumed. In
  \<open>committedMarkedWorld\<close> the object 0 is in \<open>changedVariables\<close> and the two tokens are
  equal: writing it as props mints a new pending token, through the callback of the
  reaction that the engine runs inside the write.
\<close>

theorem descriptor_set_noOp_counterexample:
  "WeakSet_has (unchangedVariables (the (administration doublyMarkedWorld))) (Obj 1)
   \<and> trace (descriptor_set (reportChanged {PropsKey}) exampleShallowEqual PropsKey (Obj 1)
               doublyMarkedWorld) =
       trace doublyMarkedWorld @ [ReportChanged PropsKey]
   \<and> WeakSet_has
       (unchangedVariables
         (the (administration
            (descriptor_set (reportChanged {PropsKey}) exampleShallowEqual PropsKey (Obj 1)
               doublyMarkedWorld))))
       (Obj 1)
   \<and> WeakSet_has (changedVariables (the (administration committedMarkedWorld))) (Obj 0)
   \<and> symbols (descriptor_set (reportChanged {PropsKey}) exampleShallowEqual PropsKey (Obj 0)
               committedMarkedWorld) = Suc (symbols committedMarkedWorld)
   \<and> map_option pendingStateVersion (administration
        (descriptor_set (reportChanged {PropsKey}) exampleShallowEqual PropsKey (Obj 0)
           committedMarkedWorld)) = Some (symbols committedMarkedWorld)"
  by (simp add: descriptor_set_def reportChanged_def reactionAlive_def reactionCallback_def
      callScheduleUpdate_def Symbol_def
      getAdministration_Some [OF doublyMarkedWorld_admin] doublyMarkedWorld_admin
      getAdministration_Some [OF committedMarkedWorld_admin] committedMarkedWorld_admin
      committedMarkedWorld_symbols emit_def Let_def)

section \<open>The update decision\<close>

text \<open>
  C3, as amended. The update-decision hook returns
  \<open>propsChanged \<or> stateChanged \<or> pendingStateVersion \<noteq> stateVersion\<close>, where the two
  flags come from independent shallow comparisons of the proposed inputs with the current
  ones; it mints a fresh pending token exactly when it returns true; and it registers each
  proposed input that is an object in \<open>changedVariables\<close> if it changed and in
  \<open>unchangedVariables\<close> if it did not. A proposed input that is \<^verbatim>\<open>null\<close> or
  \<^verbatim>\<open>undefined\<close> is registered in neither set.
\<close>

theorem observerSCU_decides:
  "let admin = fst (getAdministration w);
       w1 = snd (getAdministration w);
       propsChanged = (\<not> shallowEqual (props admin) nextProps);
       stateChanged = (\<not> shallowEqual (state admin) nextState);
       shouldUpdate = (propsChanged \<or> stateChanged
                       \<or> pendingStateVersion admin \<noteq> stateVersion admin);
       result = observerSCU shallowEqual nextProps nextState w
   in fst result = shouldUpdate
    \<and> (\<exists>admin'. administration (snd result) = Some admin'
          \<and> pendingStateVersion admin' =
              (if shouldUpdate then symbols w1 else pendingStateVersion admin)
          \<and> stateVersion admin' = stateVersion admin
          \<and> symbols (snd result) = (if shouldUpdate then Suc (symbols w1) else symbols w1)
          \<and> changedVariables admin' =
              (if stateChanged then WeakSet_add nextState else id)
                ((if propsChanged then WeakSet_add nextProps else id) (changedVariables admin))
          \<and> unchangedVariables admin' =
              (if stateChanged then id else WeakSet_add nextState)
                ((if propsChanged then id else WeakSet_add nextProps)
                   (unchangedVariables admin))
          \<and> (truthy nextProps \<longrightarrow>
                WeakSet_has (if propsChanged then changedVariables admin'
                             else unchangedVariables admin') nextProps)
          \<and> (truthy nextState \<longrightarrow>
                WeakSet_has (if stateChanged then changedVariables admin'
                             else unchangedVariables admin') nextState)
          \<and> (\<not> truthy nextProps \<longrightarrow>
                \<not> WeakSet_has (changedVariables admin') nextProps
                \<and> \<not> WeakSet_has (unchangedVariables admin') nextProps)
          \<and> (\<not> truthy nextState \<longrightarrow>
                \<not> WeakSet_has (changedVariables admin') nextState
                \<and> \<not> WeakSet_has (unchangedVariables admin') nextState))"
proof -
  obtain admin w1 where ga: "getAdministration w = (admin, w1)"
    by (cases "getAdministration w")
  show ?thesis
    unfolding observerSCU_result [OF ga] ga Let_def fst_conv snd_conv
    by (cases nextProps; cases nextState; simp add: emit_def)
qed

theorem observerSCU_decides_witness:
  "truthy (Obj 1) \<and> \<not> truthy Undefined
   \<and> fst (observerSCU exampleShallowEqual (Obj 1) Undefined propsWorld) = True
   \<and> symbols (snd (observerSCU exampleShallowEqual (Obj 1) Undefined propsWorld)) = 3
   \<and> (\<exists>admin'. administration (snd (observerSCU exampleShallowEqual (Obj 1) Undefined propsWorld))
                  = Some admin'
          \<and> pendingStateVersion admin' = 2
          \<and> WeakSet_has (unchangedVariables admin') (Obj 1)
          \<and> \<not> WeakSet_has (unchangedVariables admin') Undefined)
   \<and> truthy (Obj 2) \<and> truthy (Obj 3)
   \<and> (\<exists>admin'. administration (snd (observerSCU exampleShallowEqual (Obj 2) (Obj 3) propsWorld))
                  = Some admin'
          \<and> WeakSet_has (changedVariables admin') (Obj 2)
          \<and> WeakSet_has (changedVariables admin') (Obj 3))
   \<and> fst (observerSCU exampleShallowEqual Undefined Undefined mountedWorld) = False
   \<and> symbols (snd (observerSCU exampleShallowEqual Undefined Undefined mountedWorld)) = 1"
proof -
  have a: "getAdministration propsWorld = (the (administration propsWorld), propsWorld)"
    by (simp add: getAdministration_Some [OF propsWorld_admin] propsWorld_admin)
  have b: "getAdministration mountedWorld = (the (administration mountedWorld), mountedWorld)"
    by (simp add: getAdministration_Some [OF mountedWorld_admin] mountedWorld_admin)
  have sh: "\<not> exampleShallowEqual (Obj 0) (Obj 3)" "\<not> exampleShallowEqual Undefined (Obj 3)"
    by (simp_all add: exampleShallowEqual_def shallowEqualIn_def exampleMembers_def)
  show ?thesis
    using observerSCU_decides [of propsWorld exampleShallowEqual "Obj 1" Undefined]
      observerSCU_decides [of propsWorld exampleShallowEqual "Obj 2" "Obj 3"]
      observerSCU_decides [of mountedWorld exampleShallowEqual Undefined Undefined]
    by (auto simp add: Let_def a b propsWorld_admin propsWorld_rest mountedWorld_admin
        mountedWorld_symbols exampleShallowEqual_simps sh)
qed

text \<open>
  C3 as stated fails: in \<open>propsWorld\<close> the state is \<^verbatim>\<open>undefined\<close>, and the hook is asked
  about the props object 1 and the state \<^verbatim>\<open>undefined\<close>. The state did not change, yet it
  is not registered in \<open>unchangedVariables\<close>, which holds the props object only.
\<close>

theorem observerSCU_falsy_counterexample:
  "exampleShallowEqual (state (the (administration propsWorld))) Undefined
   \<and> \<not> WeakSet_has
         (unchangedVariables
            (the (administration
               (snd (observerSCU exampleShallowEqual (Obj 1) Undefined propsWorld)))))
         Undefined
   \<and> unchangedVariables
         (the (administration
            (snd (observerSCU exampleShallowEqual (Obj 1) Undefined propsWorld)))) = {1}
   \<and> changedVariables
         (the (administration
            (snd (observerSCU exampleShallowEqual (Obj 1) Undefined propsWorld)))) = {}"
  by (simp add: propsWorld_def mountedWorld_def model_defs example_defs
      exampleShallowEqual_def Let_def)

section \<open>The update-delivery store\<close>

text \<open>
  C5, as amended. \<open>setValue\<close> replaces the stored token and calls every subscribed
  listener, in the same call, if and only if the token differs from the stored one;
  otherwise it does nothing. \<open>getValue\<close> returns the stored token. Calling \<open>setValue\<close>
  twice in a row with the same token calls each subscribed listener exactly once in total
  when the token differs from the one stored before the first call (the second call never
  notifies), and calls nobody when the token is the stored one.
\<close>

theorem setValue_notifies_once:
  "(newValue \<noteq> value' store \<longrightarrow>
      setValue newValue store = (store\<lparr>value' := newValue\<rparr>, listeners store))
   \<and> (newValue = value' store \<longrightarrow> setValue newValue store = (store, []))
   \<and> getValue store = value' store
   \<and> getValue (fst (setValue newValue store)) = newValue
   \<and> setValue newValue (fst (setValue newValue store)) = (fst (setValue newValue store), [])
   \<and> (newValue \<noteq> value' store \<and> distinct (listeners store) \<longrightarrow>
        (\<forall>l \<in> set (listeners store).
           count_list (snd (setValue newValue store)
                       @ snd (setValue newValue (fst (setValue newValue store)))) l = 1))
   \<and> (newValue = value' store \<longrightarrow>
        snd (setValue newValue store)
          @ snd (setValue newValue (fst (setValue newValue store))) = [])"
  by (auto simp: setValue_def getValue_def notifyListeners_def Let_def count_list_distinct)

theorem setValue_notifies_once_witness:
  "(3::nat) \<noteq> value' exampleStore2 \<and> distinct (listeners exampleStore2)
   \<and> 1 \<in> set (listeners exampleStore2) \<and> 2 \<in> set (listeners exampleStore2)
   \<and> setValue 3 exampleStore2 = (\<lparr>value' = 3, listeners = [1, 2]\<rparr>, [1, 2])
   \<and> count_list (snd (setValue 3 exampleStore2)
                  @ snd (setValue 3 (fst (setValue 3 exampleStore2)))) 1 = 1
   \<and> count_list (snd (setValue 3 exampleStore2)
                  @ snd (setValue 3 (fst (setValue 3 exampleStore2)))) 2 = 1
   \<and> (0::nat) = value' exampleStore2
   \<and> setValue 0 exampleStore2 = (exampleStore2, [])"
  using setValue_notifies_once [of 3 exampleStore2] setValue_notifies_once [of 0 exampleStore2]
  by (simp add: exampleStore2_eq setValue_def notifyListeners_def)

text \<open>
  C5 as stated fails: \<open>exampleStore\<close> has one listener. Calling \<open>setValue\<close> twice with
  the token the store already holds calls no listener at all, not exactly one.
\<close>

theorem setValue_twice_counterexample:
  "listeners exampleStore = [1]
   \<and> snd (setValue (getValue exampleStore) exampleStore)
       @ snd (setValue (getValue exampleStore)
               (fst (setValue (getValue exampleStore) exampleStore))) = []"
  by (simp add: exampleStore_eq setValue_def getValue_def)

section \<open>The tracked render\<close>

text \<open>
  C6. The code at the failing input: the user's render throws the falsy value
  \<^verbatim>\<open>null\<close> in \<open>staleWorld\<close>. The tracked scope is closed and the committed token is
  left alone (0, while the pending token is 1), as the claim says; but the exception does
  not propagate: \<open>reactiveRender\<close> returns \<^verbatim>\<open>undefined\<close> to its caller, because
  \<^verbatim>\<open>if (error)\<close> takes the caught \<^verbatim>\<open>null\<close> for "nothing was thrown".
\<close>

theorem reactiveRender_swallows_falsy_throw:
  "fst (throwingRender Null (emit (TrackStart ''Todo.render()'') staleWorld)) = Inl (Thrown Null)
   \<and> fst (reactiveRender (throwingRender Null) staleWorld) = Inr Undefined
   \<and> map_option stateVersion
        (administration (snd (reactiveRender (throwingRender Null) staleWorld))) = Some 0
   \<and> map_option pendingStateVersion
        (administration (snd (reactiveRender (throwingRender Null) staleWorld))) = Some 1
   \<and> trace (snd (reactiveRender (throwingRender Null) staleWorld)) =
       trace staleWorld @ [TrackStart ''Todo.render()'', TrackEnd ''Todo.render()'']"
  by (simp add: reactiveRender_outcomes ensureReaction_def getAdministration_Some [OF staleWorld_admin]
      throwingRender_def emit_def Let_def staleWorld_admin)

section \<open>Configuration errors of the wrap operation\<close>




section \<open>The two tokens and the unconsumed invalidation\<close>

text \<open>
  C9, as amended. The record is created with the two tokens identical. Along every
  history of an instance (with render bodies that only read), the pending token differs
  from the committed one exactly when an invalidation is unconsumed, and both tokens were
  minted earlier. Every operation that records a new invalidation (the reaction callback,
  an external write of a shallowly unequal value, the resynchronization on mount, a
  positive update decision) leaves the two tokens unequal: it mints a fresh pending token,
  except for the reaction callback on an instance whose tokens already differ, which
  changes nothing. A successful tracked render restores equality, and no other operation
  does: an operation that neither records nor consumes an invalidation leaves the instance
  stale if and only if it was.
\<close>

theorem versions_agree_invariant:
  assumes "administration w0 = None" and "\<forall>op \<in> set ops. readOnly op" and "readOnly op"
  shows "\<not> stale (snd (getAdministration w0))
       \<and> versionsAgree (run shallowEqual ops (w0, False))
       \<and> tokensMinted (fst (run shallowEqual ops (w0, False)))
       \<and> (let w = fst (run shallowEqual ops (w0, False));
               w' = perform shallowEqual op w
           in (recordsInvalidation shallowEqual op w \<longrightarrow> stale w')
            \<and> (recordsInvalidation shallowEqual op w
                  \<and> \<not> (op = OpReactionCallback \<and> stale w) \<longrightarrow> mintsPendingToken w w')
            \<and> (op = OpReactionCallback \<and> stale w \<longrightarrow> w' = w)
            \<and> (consumesInvalidation op w \<longrightarrow> \<not> stale w')
            \<and> (stale w \<and> \<not> consumesInvalidation op w \<longrightarrow> stale w')
            \<and> (\<not> recordsInvalidation shallowEqual op w \<and> \<not> consumesInvalidation op w \<longrightarrow>
                  stale w' = stale w))"
proof -
  have created: "\<not> stale (snd (getAdministration w0))"
    using assms(1) by (simp add: getAdministration_def Symbol_def stale_def Let_def)
  have start: "consistent w0 False"
    using assms(1) by (simp add: consistent_None)
  define w where "w = fst (run shallowEqual ops (w0, False))"
  define u where "u = snd (run shallowEqual ops (w0, False))"
  have reached: "consistent w u"
    unfolding w_def u_def by (rule run_consistent [OF assms(2) start])
  have exclusive: "consumesInvalidation op w \<Longrightarrow> \<not> recordsInvalidation shallowEqual op w"
    by (cases op) simp_all
  from step_consistent [OF assms(3) reached, of shallowEqual] reached exclusive
  have step: "(recordsInvalidation shallowEqual op w \<longrightarrow> stale (perform shallowEqual op w))
            \<and> (consumesInvalidation op w \<longrightarrow> \<not> stale (perform shallowEqual op w))
            \<and> (stale w \<and> \<not> consumesInvalidation op w \<longrightarrow> stale (perform shallowEqual op w))
            \<and> (\<not> recordsInvalidation shallowEqual op w \<and> \<not> consumesInvalidation op w \<longrightarrow>
                  stale (perform shallowEqual op w) = stale w)"
    by (auto simp: consistent_def versionsAgree_def split: if_splits)
  have mints: "recordsInvalidation shallowEqual op w
                  \<and> \<not> (op = OpReactionCallback \<and> stale w) \<longrightarrow>
               mintsPendingToken w (perform shallowEqual op w)"
    using records_mints [of shallowEqual op w] by blast
  have guarded: "op = OpReactionCallback \<and> stale w \<longrightarrow> perform shallowEqual op w = w"
    by (auto simp: stale_def reactionCallback_def split: option.splits)
  from reached have "versionsAgree (run shallowEqual ops (w0, False))"
    and "tokensMinted (fst (run shallowEqual ops (w0, False)))"
    by (simp_all add: consistent_def versionsAgree_def w_def u_def)
  with created step mints guarded show ?thesis
    by (simp add: Let_def w_def)
qed

theorem versions_agree_invariant_witness:
  "administration freshWorld = None
   \<and> list_all readOnly exampleHistory
   \<and> readOnly (OpReactiveRender (readingRender (Obj 5)))
   \<and> run exampleShallowEqual exampleHistory (freshWorld, False) = (staleWorld, True)
   \<and> stale staleWorld
   \<and> consumesInvalidation (OpReactiveRender (readingRender (Obj 5))) staleWorld
   \<and> \<not> stale (perform exampleShallowEqual (OpReactiveRender (readingRender (Obj 5))) staleWorld)
   \<and> readOnly (OpSet PropsKey (Obj 0))
   \<and> recordsInvalidation exampleShallowEqual (OpSet PropsKey (Obj 0)) staleWorld
   \<and> mintsPendingToken staleWorld
        (perform exampleShallowEqual (OpSet PropsKey (Obj 0)) staleWorld)
   \<and> readOnly OpReactionCallback
   \<and> perform exampleShallowEqual OpReactionCallback staleWorld = staleWorld"
proof -
  have none: "administration freshWorld = None"
    by (simp add: freshWorld_def)
  have ro: "\<forall>op \<in> set exampleHistory. readOnly op"
    using readOnly_readingRender by (simp add: exampleHistory_def)
  have consumes:
    "consumesInvalidation (OpReactiveRender (readingRender (Obj 5))) staleWorld"
    by (simp add: ensureReaction_def getAdministration_Some [OF staleWorld_admin]
        readingRender_def)
  have records: "recordsInvalidation exampleShallowEqual (OpSet PropsKey (Obj 0)) staleWorld"
    by (simp add: getAdministration_Some [OF staleWorld_admin] staleWorld_admin
        exampleShallowEqual_simps)
  have st: "stale staleWorld"
    by (simp add: stale_def staleWorld_admin)
  from versions_agree_invariant [OF none ro readOnly_readingRender,
      of exampleShallowEqual "Obj 5"]
    versions_agree_invariant [OF none ro, of "OpSet PropsKey (Obj 0)" exampleShallowEqual]
    versions_agree_invariant [OF none ro, of OpReactionCallback exampleShallowEqual]
  show ?thesis
    using none ro readOnly_readingRender [of "Obj 5"] consumes records st
    by (simp add: exampleHistory_run versionsAgree_def Let_def list_all_iff)
qed

text \<open>
  C9 as stated fails: in \<open>staleWorld\<close> the reaction exists and its callback fires, one of
  the operations that record an invalidation; it mints no token.
\<close>

theorem reactionCallback_no_mint_counterexample:
  "reactionAlive staleWorld
   \<and> recordsInvalidation exampleShallowEqual OpReactionCallback staleWorld
   \<and> symbols (perform exampleShallowEqual OpReactionCallback staleWorld) = symbols staleWorld
   \<and> \<not> mintsPendingToken staleWorld (perform exampleShallowEqual OpReactionCallback staleWorld)"
  by (simp add: reactionAlive_def reactionCallback_def staleWorld_admin staleWorld_symbols
      mintsPendingToken_def)

end
